theory Spec2Isabelle
  imports Main "HOL-Library.AList"
begin

section \<open>Values of a parsed manifest\<close>

text \<open>
  \<^verbatim>\<open>yaml.load\<close> turns \<^verbatim>\<open>template.yaml\<close> into a JavaScript value, and the code
  reads it as \<^verbatim>\<open>any\<close>. The model keeps the kinds of value that the YAML core schema
  produces: null, booleans, integers, strings, sequences and mappings, and
  \<^verbatim>\<open>undefined\<close> for an empty document or a missing property. A mapping is the list
  of its own properties in enumeration order, without duplicate keys. Floating-point
  numbers, timestamps and binary scalars are left out, documents are trees (no YAML
  alias makes two sections one object), and strings are ASCII.
\<close>

datatype js =
    JUndefined
  | JNull
  | JBool bool
  | JNum int
  | JStr string
  | JArr "js list"
  | JObj "(string \<times> js) list"

datatype error =
    TypeError
  | TemplateNotFound
  | ParseFailure
  | ResourceNotFound
  | FsError
  | DumpFailure
  | Wrapped error

definition bind :: "error + 'a \<Rightarrow> ('a \<Rightarrow> error + 'b) \<Rightarrow> error + 'b" where
  "bind m f = (case m of Inl e \<Rightarrow> Inl e | Inr x \<Rightarrow> f x)"

text \<open>JavaScript truthiness: what \<^verbatim>\<open>!x\<close>, \<^verbatim>\<open>x || y\<close> and \<^verbatim>\<open>if (x)\<close> test.\<close>

fun truthy :: "js \<Rightarrow> bool" where
  "truthy JUndefined = False"
| "truthy JNull = False"
| "truthy (JBool b) = b"
| "truthy (JNum n) = (n \<noteq> 0)"
| "truthy (JStr s) = (s \<noteq> [])"
| "truthy (JArr xs) = True"
| "truthy (JObj ps) = True"

definition or_js :: "js \<Rightarrow> js \<Rightarrow> js" where
  "or_js a b = (if truthy a then a else b)"

fun nullish :: "js \<Rightarrow> bool" where
  "nullish JUndefined = True"
| "nullish JNull = True"
| "nullish v = False"

text \<open>The decimal spelling of an array index, as \<^verbatim>\<open>Object.keys\<close> gives it.\<close>

fun index_key :: "nat \<Rightarrow> string" where
  "index_key n =
     (if n < 10 then [''0123456789'' ! n]
      else index_key (n div 10) @ [''0123456789'' ! (n mod 10)])"

declare index_key.simps [simp del]

text \<open>
  The own enumerable properties of a value: the pairs of a mapping, the indexed
  elements of a sequence, the indexed characters of a string, none for the other
  primitives. Inherited properties (\<^verbatim>\<open>length\<close>, \<^verbatim>\<open>constructor\<close>) are not modelled;
  the code reads none of them from a manifest.
\<close>

fun own_props :: "js \<Rightarrow> (string \<times> js) list" where
  "own_props (JObj ps) = ps"
| "own_props (JArr xs) = zip (map index_key [0..<length xs]) xs"
| "own_props (JStr s) = zip (map index_key [0..<length s]) (map (\<lambda>c. JStr [c]) s)"
| "own_props v = []"

definition get_prop :: "js \<Rightarrow> string \<Rightarrow> js" where
  "get_prop v k = (case map_of (own_props v) k of Some x \<Rightarrow> x | None \<Rightarrow> JUndefined)"

text \<open>\<^verbatim>\<open>v.k\<close> raises a TypeError on null and undefined; \<^verbatim>\<open>v?.k\<close> gives undefined there.\<close>

definition js_get :: "js \<Rightarrow> string \<Rightarrow> error + js" where
  "js_get v k = (if nullish v then Inl TypeError else Inr (get_prop v k))"

definition opt_get :: "js \<Rightarrow> string \<Rightarrow> js" where
  "opt_get v k = (if nullish v then JUndefined else get_prop v k)"

definition object_keys :: "js \<Rightarrow> error + string list" where
  "object_keys v = (if nullish v then Inl TypeError else Inr (map fst (own_props v)))"

definition object_values :: "js \<Rightarrow> error + js list" where
  "object_values v = (if nullish v then Inl TypeError else Inr (map snd (own_props v)))"

text \<open>
  \<^verbatim>\<open>v.k = x\<close>, as the serialised document shows it afterwards. A mapping gets the
  property in place or at its end. A sequence takes the named property in memory, but
  \<^verbatim>\<open>yaml.dump\<close> writes the elements only. The modules are strict-mode code, where the
  assignment raises a TypeError on a primitive as it does on null and undefined.
\<close>

fun js_set :: "js \<Rightarrow> string \<Rightarrow> js \<Rightarrow> error + js" where
  "js_set (JObj ps) k x = Inr (JObj (AList.update k x ps))"
| "js_set (JArr xs) k x = Inr (JArr xs)"
| "js_set v k x = Inl TypeError"

section \<open>Event-type inference\<close>

text \<open>The \<^verbatim>\<open>switch (eventType)\<close> shared by both inference functions; \<^verbatim>\<open>case\<close> compares with \<^verbatim>\<open>===\<close>.\<close>

definition event_switch :: "js \<Rightarrow> string" where
  "event_switch eventType =
     (if eventType = JStr ''Api'' then ''apigateway''
      else if eventType = JStr ''S3'' then ''s3''
      else if eventType = JStr ''DynamoDB'' then ''dynamodb''
      else if eventType = JStr ''SQS'' then ''sqs''
      else ''apigateway'')"

text \<open>\<^verbatim>\<open>TemplateManager.detectEventTypeFromEvents\<close>: no \<^verbatim>\<open>try\<close> around the reads.\<close>

definition detectEventTypeFromEvents :: "js \<Rightarrow> error + string" where
  "detectEventTypeFromEvents events =
     bind (object_keys events) (\<lambda>eventKeys.
       case eventKeys of
         [] \<Rightarrow> Inr ''apigateway''
       | k # _ \<Rightarrow>
           bind (js_get events k) (\<lambda>firstEvent.
           bind (js_get firstEvent ''Type'') (\<lambda>eventType.
             Inr (event_switch eventType))))"

text \<open>
  \<^verbatim>\<open>Object.values(resources).find(r => r.Type === "AWS::Serverless::Function")\<close>:
  the callback raises on a null resource that comes before the first match.
\<close>

fun find_function_resource :: "js list \<Rightarrow> error + js" where
  "find_function_resource [] = Inr JUndefined"
| "find_function_resource (r # rs) =
     bind (js_get r ''Type'') (\<lambda>t.
       if t = JStr ''AWS::Serverless::Function'' then Inr r
       else find_function_resource rs)"

text \<open>The body of the \<^verbatim>\<open>try\<close> in \<^verbatim>\<open>ConfigManager.detectEventTypeFromTemplate\<close>;
  \<open>None\<close> is falling out of the \<^verbatim>\<open>if\<close>s to the final \<^verbatim>\<open>return\<close>.\<close>

definition detectEventTypeFromTemplate_body :: "js \<Rightarrow> error + string option" where
  "detectEventTypeFromTemplate_body template =
     bind (js_get template ''Resources'') (\<lambda>r0.
     bind (object_values (or_js r0 (JObj []))) (\<lambda>vals.
     bind (find_function_resource vals) (\<lambda>functionResource.
       if truthy functionResource
          \<and> truthy (opt_get (get_prop functionResource ''Properties'') ''Events'')
       then
         bind (js_get functionResource ''Properties'') (\<lambda>props.
         bind (js_get props ''Events'') (\<lambda>events.
         bind (object_keys events) (\<lambda>eventKeys.
           case eventKeys of
             [] \<Rightarrow> Inr None
           | k # _ \<Rightarrow>
               bind (js_get events k) (\<lambda>firstEvent.
               bind (js_get firstEvent ''Type'') (\<lambda>eventType.
                 Inr (Some (event_switch eventType)))))))
       else Inr None)))"

definition detectEventTypeFromTemplate :: "js \<Rightarrow> string" where
  "detectEventTypeFromTemplate template =
     (case detectEventTypeFromTemplate_body template of
        Inl e \<Rightarrow> ''apigateway''
      | Inr None \<Rightarrow> ''apigateway''
      | Inr (Some t) \<Rightarrow> t)"

definition known_tags :: "string set" where
  "known_tags = {''apigateway'', ''s3'', ''dynamodb'', ''sqs''}"

section \<open>The manifest store\<close>

text \<open>
  One \<^verbatim>\<open>template.yaml\<close> per function directory. The store maps a function directory to
  what its manifest holds: nothing, text that \<^verbatim>\<open>yaml.load\<close> rejects, or a document.
  \<^verbatim>\<open>yaml.dump\<close> followed by \<^verbatim>\<open>yaml.load\<close> is taken to give the document back, so a
  write stores the document itself.
\<close>

datatype manifest_file = Unparseable | Doc js

type_synonym store = "string \<Rightarrow> manifest_file option"

definition readTemplate :: "store \<Rightarrow> string \<Rightarrow> error + js" where
  "readTemplate st lambdaDir =
     (case st lambdaDir of
        None \<Rightarrow> Inl TemplateNotFound
      | Some Unparseable \<Rightarrow> Inl ParseFailure
      | Some (Doc t) \<Rightarrow> Inr t)"

definition writeTemplate :: "store \<Rightarrow> string \<Rightarrow> js \<Rightarrow> store" where
  "writeTemplate st lambdaDir t = st(lambdaDir \<mapsto> Doc t)"

text \<open>An object literal \<^verbatim>\<open>{...base, k1: v1, k2: v2}\<close>: the later keys overwrite in place or
  are added at the end.\<close>

definition assign :: "(string \<times> js) list \<Rightarrow> (string \<times> js) list \<Rightarrow> (string \<times> js) list" where
  "assign base kvs = foldl (\<lambda>ps kv. AList.update (fst kv) (snd kv) ps) base kvs"

text \<open>\<^verbatim>\<open>new Error(`...: ${error}`)\<close> around a failed call.\<close>

definition wrap :: "error + 'a \<Rightarrow> error + 'a" where
  "wrap m = (case m of Inl e \<Rightarrow> Inl (Wrapped e) | Inr x \<Rightarrow> Inr x)"

text \<open>
  \<^verbatim>\<open>TemplateManager.updateGeckoMetadata\<close>. \<open>now\<close> is \<^verbatim>\<open>new Date().toISOString()\<close>.
  The block written spreads the existing one.
\<close>

definition TemplateManager_updateGeckoMetadata ::
  "string \<Rightarrow> store \<Rightarrow> string \<Rightarrow> string \<Rightarrow> string \<Rightarrow> string \<Rightarrow> error + store" where
  "TemplateManager_updateGeckoMetadata now st lambdaDir sourceFile sourceDir eventType =
     bind (readTemplate st lambdaDir) (\<lambda>t0.
     bind (js_get t0 ''Metadata'') (\<lambda>m0.
     bind (if \<not> truthy m0 then js_set t0 ''Metadata'' (JObj []) else Inr t0) (\<lambda>t1.
       let m1 = (if \<not> truthy m0 then JObj [] else m0);
           existingMetadata = or_js (get_prop m1 ''GeckoLambda'') (JObj []);
           block = JObj (assign (own_props existingMetadata)
                     [(''sourceFile'', JStr sourceFile),
                      (''sourceDir'', JStr sourceDir),
                      (''eventType'', JStr eventType),
                      (''lastModified'', JStr now),
                      (''version'', JStr ''2.0'')])
       in bind (js_set m1 ''GeckoLambda'' block) (\<lambda>m2.
          bind (js_set t1 ''Metadata'' m2) (\<lambda>t2.
            Inr (writeTemplate st lambdaDir t2))))))"

text \<open>\<^verbatim>\<open>ConfigManager.updateGeckoMetadata\<close>: the block written holds the five fields only.\<close>

definition ConfigManager_updateGeckoMetadata ::
  "string \<Rightarrow> store \<Rightarrow> string \<Rightarrow> string \<Rightarrow> string \<Rightarrow> string \<Rightarrow> error + store" where
  "ConfigManager_updateGeckoMetadata now st lambdaDir sourceFile sourceDir eventType =
     wrap (
       bind (readTemplate st lambdaDir) (\<lambda>t0.
       bind (js_get t0 ''Metadata'') (\<lambda>m0.
       bind (if \<not> truthy m0 then js_set t0 ''Metadata'' (JObj []) else Inr t0) (\<lambda>t1.
         let m1 = (if \<not> truthy m0 then JObj [] else m0);
             block = JObj [(''sourceFile'', JStr sourceFile),
                           (''sourceDir'', JStr sourceDir),
                           (''eventType'', JStr eventType),
                           (''lastModified'', JStr now),
                           (''version'', JStr ''2.0'')]
         in bind (js_set m1 ''GeckoLambda'' block) (\<lambda>m2.
            bind (js_set t1 ''Metadata'' m2) (\<lambda>t2.
              Inr (writeTemplate st lambdaDir t2)))))))"

subsection \<open>Validation and repair\<close>

record UnifiedValidation =
  exists :: bool
  hasMetadata :: bool
  metadata :: js



record GeckoValidation =
  hasMetadata :: bool
  isValid :: bool
  metadata :: js
  issues :: "string list"

text \<open>\<^verbatim>\<open>TemplateManager.validateGeckoMetadata\<close>. The issue of the \<^verbatim>\<open>catch\<close> is given
  without the text of the error.\<close>

definition validateGeckoMetadata :: "store \<Rightarrow> string \<Rightarrow> GeckoValidation" where
  "validateGeckoMetadata st lambdaDir =
     (case bind (readTemplate st lambdaDir) (\<lambda>t.
           bind (js_get t ''Metadata'') (\<lambda>m.
             Inr (opt_get m ''GeckoLambda''))) of
        Inl e \<Rightarrow> \<lparr> hasMetadata = False, isValid = False, metadata = JUndefined,
                   issues = [''Failed to read template''] \<rparr>
      | Inr geckoMetadata \<Rightarrow>
          if \<not> truthy geckoMetadata
          then \<lparr> hasMetadata = False, isValid = False, metadata = JUndefined,
                 issues = [''No Gecko Lambda metadata found in template.yaml''] \<rparr>
          else
            let issues =
                  (if \<not> truthy (get_prop geckoMetadata ''sourceFile'')
                   then [''Missing sourceFile in metadata''] else [])
                @ (if \<not> truthy (get_prop geckoMetadata ''sourceDir'')
                   then [''Missing sourceDir in metadata''] else [])
                @ (if \<not> truthy (get_prop geckoMetadata ''eventType'')
                   then [''Missing eventType in metadata''] else [])
                @ (if \<not> truthy (get_prop geckoMetadata ''version'')
                   then [''Missing version in metadata''] else [])
            in \<lparr> hasMetadata = True, isValid = (length issues = 0),
                 metadata = geckoMetadata, issues = issues \<rparr>)"


subsection \<open>Environment variables\<close>

text \<open>
  \<^verbatim>\<open>Object.values(resources).find(...)\<close> gives the first function resource itself, and
  the code then changes that object in place. The model finds its position among the
  values and puts the changed resource back there.
\<close>

text \<open>\<^verbatim>\<open>if (!x.k) { x.k = {}; }\<close>: what \<^verbatim>\<open>x.k\<close> is afterwards, given what it was.\<close>

definition ensure :: "js \<Rightarrow> js" where
  "ensure v = (if \<not> truthy v then JObj [] else v)"

fun find_function_index :: "js list \<Rightarrow> error + nat option" where
  "find_function_index [] = Inr None"
| "find_function_index (r # rs) =
     bind (js_get r ''Type'') (\<lambda>t.
       if t = JStr ''AWS::Serverless::Function'' then Inr (Some 0)
       else bind (find_function_index rs) (\<lambda>found. Inr (map_option Suc found)))"

definition put_own :: "js \<Rightarrow> nat \<Rightarrow> js \<Rightarrow> js" where
  "put_own v i x =
     (case v of
        JObj ps \<Rightarrow> JObj (ps[i := (fst (ps ! i), x)])
      | JArr xs \<Rightarrow> JArr (xs[i := x])
      | _ \<Rightarrow> v)"

text \<open>
  \<^verbatim>\<open>TemplateManager.updateEnvironmentVariables\<close>. The variables are a list of pairs of
  strings with distinct names; \<open>awsFunctionName\<close> is \<open>None\<close> when the caller gives
  none.
\<close>

definition updateEnvironmentVariables ::
  "string \<Rightarrow> store \<Rightarrow> string \<Rightarrow> (string \<times> string) list \<Rightarrow> string option \<Rightarrow> error + store" where
  "updateEnvironmentVariables now st lambdaDir environment awsFunctionName =
     bind (readTemplate st lambdaDir) (\<lambda>t0.
     bind (js_get t0 ''Resources'') (\<lambda>r0.
       let resources = or_js r0 (JObj []) in
       bind (object_values resources) (\<lambda>vals.
       bind (find_function_index vals) (\<lambda>found.
         case found of
           None \<Rightarrow> Inl ResourceNotFound
         | Some i \<Rightarrow>
             let functionResource = vals ! i;
                 p1 = ensure (get_prop functionResource ''Properties'');
                 e1 = ensure (get_prop p1 ''Environment'')
             in
             bind (js_set e1 ''Variables''
                     (JObj (map (\<lambda>kv. (fst kv, JStr (snd kv))) environment))) (\<lambda>e2.
             bind (js_set p1 ''Environment'' e2) (\<lambda>p2.
             bind (js_set functionResource ''Properties'' p2) (\<lambda>fr2.
             bind (js_set t0 ''Resources'' (put_own resources i fr2)) (\<lambda>t1.
               let m1 = ensure (get_prop t1 ''Metadata'');
                   g1 = ensure (get_prop m1 ''GeckoLambda'');
                   environmentInfo =
                     JObj [(''lastUpdated'', JStr now),
                           (''source'', JStr ''aws''),
                           (''awsFunctionName'',
                              or_js (case awsFunctionName of
                                       None \<Rightarrow> JUndefined | Some n \<Rightarrow> JStr n)
                                    (JStr ''manual'')),
                           (''variableCount'', JNum (int (length environment)))]
               in
               bind (js_set g1 ''environmentInfo'' environmentInfo) (\<lambda>g2.
               bind (js_set g2 ''lastModified'' (JStr now)) (\<lambda>g3.
               bind (js_set m1 ''GeckoLambda'' g3) (\<lambda>m2.
               bind (js_set t1 ''Metadata'' m2) (\<lambda>t2.
                 Inr (writeTemplate st lambdaDir t2)))))))))))))"

text \<open>
  Reading the result back: the first function resource of a manifest (undefined when
  there is none or the search raises), its environment variables, and the private
  metadata block. A section is well-shaped when it is a mapping or falsy, which the
  code replaces by an empty mapping.
\<close>

definition function_resource :: "js \<Rightarrow> js" where
  "function_resource t =
     (case find_function_resource (map snd (own_props (get_prop t ''Resources''))) of
        Inr fr \<Rightarrow> fr
      | Inl e \<Rightarrow> JUndefined)"

definition environment_variables :: "js \<Rightarrow> js" where
  "environment_variables t =
     get_prop (get_prop (get_prop (function_resource t) ''Properties'') ''Environment'')
       ''Variables''"

definition gecko_metadata :: "js \<Rightarrow> js" where
  "gecko_metadata t = opt_get (get_prop t ''Metadata'') ''GeckoLambda''"

text \<open>The \<^verbatim>\<open>environmentInfo\<close> block of the manifest of a function directory.\<close>

definition recorded_provenance :: "store \<Rightarrow> string \<Rightarrow> js" where
  "recorded_provenance st lambdaDir =
     (case st lambdaDir of
        Some (Doc t) \<Rightarrow> get_prop (gecko_metadata t) ''environmentInfo''
      | _ \<Rightarrow> JUndefined)"

definition mapping_or_falsy :: "js \<Rightarrow> bool" where
  "mapping_or_falsy v = (case v of JObj ps \<Rightarrow> True | _ \<Rightarrow> \<not> truthy v)"

text \<open>The properties of a value other than \<open>k\<close>, in order: what a write to \<open>k\<close> is to leave alone.\<close>

definition other_props :: "string \<Rightarrow> js \<Rightarrow> (string \<times> js) list" where
  "other_props k v = filter (\<lambda>p. fst p \<noteq> k) (own_props v)"

text \<open>A manifest with sections that the tool does not interpret.\<close>

definition sample_template :: js where
  "sample_template =
     JObj [(''AWSTemplateFormatVersion'', JStr ''2010-09-09''),
           (''Metadata'', JObj [(''Owner'', JStr ''team-a''),
                               (''GeckoLambda'', JObj [(''sourceFile'', JStr ''/src/old.go''),
                                                     (''buildMethod'', JStr ''sam'')])]),
           (''Resources'', JObj [(''HelloFunction'',
              JObj [(''Type'', JStr ''AWS::Serverless::Function''),
                    (''Properties'', JObj [(''Runtime'', JStr ''go1.x''),
                                          (''Tracing'', JStr ''Active'')])])]),
           (''Custom'', JArr [JNum 1, JNull])]"

definition sample_store :: store where
  "sample_store = Map.empty(''/ws/hello'' \<mapsto> Doc sample_template)"

definition sample_merged :: js where
  "sample_merged =
     JObj [(''AWSTemplateFormatVersion'', JStr ''2010-09-09''),
           (''Metadata'', JObj [(''Owner'', JStr ''team-a''),
                               (''GeckoLambda'', JObj [(''sourceFile'', JStr ''/src/main.go''),
                                                     (''buildMethod'', JStr ''sam''),
                                                     (''sourceDir'', JStr ''/src''),
                                                     (''eventType'', JStr ''sqs''),
                                                     (''lastModified'', JStr ''T1''),
                                                     (''version'', JStr ''2.0'')])]),
           (''Resources'', JObj [(''HelloFunction'',
              JObj [(''Type'', JStr ''AWS::Serverless::Function''),
                    (''Properties'', JObj [(''Runtime'', JStr ''go1.x''),
                                          (''Tracing'', JStr ''Active'')])])]),
           (''Custom'', JArr [JNum 1, JNull])]"

section \<open>Strings and paths\<close>

text \<open>ASCII case mapping, and \<^verbatim>\<open>\w\<close> of a regular expression.\<close>

definition toLowerCase :: "string \<Rightarrow> string" where
  "toLowerCase s =
     map (\<lambda>c. case map_of (zip ''ABCDEFGHIJKLMNOPQRSTUVWXYZ'' ''abcdefghijklmnopqrstuvwxyz'') c of
                 Some l \<Rightarrow> l | None \<Rightarrow> c) s"

definition upper_char :: "char \<Rightarrow> char" where
  "upper_char c =
     (case map_of (zip ''abcdefghijklmnopqrstuvwxyz'' ''ABCDEFGHIJKLMNOPQRSTUVWXYZ'') c of
        Some u \<Rightarrow> u | None \<Rightarrow> c)"

definition is_word :: "char \<Rightarrow> bool" where
  "is_word c \<longleftrightarrow>
     c \<in> set ''abcdefghijklmnopqrstuvwxyzABCDEFGHIJKLMNOPQRSTUVWXYZ0123456789_''"

definition is_sep :: "char \<Rightarrow> bool" where
  "is_sep c \<longleftrightarrow> c = CHR ''-'' \<or> c = CHR ''_''"

text \<open>\<^verbatim>\<open>str.replace(/[-_](\w)/g, (_, letter) => letter.toUpperCase())\<close>: a match consumes
  the separator and the character after it.\<close>

fun join_words :: "string \<Rightarrow> string" where
  "join_words (c # d # cs) =
     (if is_sep c \<and> is_word d then upper_char d # join_words cs
      else c # join_words (d # cs))"
| "join_words cs = cs"

text \<open>\<^verbatim>\<open>StringUtils.toPascalCase\<close>; the second \<^verbatim>\<open>replace\<close> is \<^verbatim>\<open>/^\w/\<close>.\<close>

definition toPascalCase :: "string \<Rightarrow> string" where
  "toPascalCase str =
     (case join_words str of
        [] \<Rightarrow> []
      | c # cs \<Rightarrow> (if is_word c then upper_char c # cs else c # cs))"

text \<open>\<^verbatim>\<open>key.replace(/Function$/, "")\<close>.\<close>

definition strip_Function :: "string \<Rightarrow> string" where
  "strip_Function key =
     (if length ''Function'' \<le> length key
         \<and> drop (length key - length ''Function'') key = ''Function''
      then take (length key - length ''Function'') key
      else key)"

text \<open>\<^verbatim>\<open>path.join\<close> of two segments, without its normalisation.\<close>

definition path_join :: "string \<Rightarrow> string \<Rightarrow> string" where
  "path_join a b = a @ ''/'' @ b"

text \<open>\<^verbatim>\<open>path.basename\<close> and \<^verbatim>\<open>path.dirname\<close> on POSIX paths.\<close>

definition path_basename :: "string \<Rightarrow> string" where
  "path_basename p =
     rev (takeWhile (\<lambda>c. c \<noteq> CHR ''/'') (dropWhile (\<lambda>c. c = CHR ''/'') (rev p)))"

definition path_dirname :: "string \<Rightarrow> string" where
  "path_dirname p =
     (case p of
        [] \<Rightarrow> ''.''
      | c # cs \<Rightarrow>
          let rest = dropWhile (\<lambda>x. x \<noteq> CHR ''/'') (dropWhile (\<lambda>x. x = CHR ''/'') (rev cs));
              end = length rest
          in if rest = [] then (if c = CHR ''/'' then ''/'' else ''.'')
             else if c = CHR ''/'' \<and> end = 1 then ''//''
             else take end p)"

text \<open>\<^verbatim>\<open>String(v)\<close>, as a template literal applies it.\<close>

definition int_to_string :: "int \<Rightarrow> string" where
  "int_to_string n = (if n < 0 then ''-'' @ index_key (nat (- n)) else index_key (nat n))"

fun js_to_string :: "js \<Rightarrow> string" and js_join :: "js list \<Rightarrow> string" where
  "js_to_string JUndefined = ''undefined''"
| "js_to_string JNull = ''null''"
| "js_to_string (JBool b) = (if b then ''true'' else ''false'')"
| "js_to_string (JNum n) = int_to_string n"
| "js_to_string (JStr s) = s"
| "js_to_string (JArr xs) = js_join xs"
| "js_to_string (JObj ps) = ''[object Object]''"
| "js_join [] = []"
| "js_join [x] = (if nullish x then [] else js_to_string x)"
| "js_join (x # y # ys) = (if nullish x then [] else js_to_string x) @ '','' @ js_join (y # ys)"

section \<open>Discovery of functions in a workspace\<close>

text \<open>\<^verbatim>\<open>LambdaConfig\<close> of \<^verbatim>\<open>detector.ts\<close>.\<close>

record LambdaConfig =
  functionName :: string
  workspacePath :: string
  eventType :: js
  lastModified :: js
  sourceFile :: js
  sourceDir :: js

text \<open>
  What the scans see of the workspace directory: \<open>None\<close> when it does not exist,
  an error when \<^verbatim>\<open>readdirSync\<close> raises, else the entries with their
  \<^verbatim>\<open>isDirectory()\<close>, in the order \<^verbatim>\<open>readdirSync\<close> gives them. The manifests are in the
  store, under \<^verbatim>\<open>path.join(workspacePath, lambdaDir)\<close>; a manifest that cannot be read
  is \<open>Unparseable\<close>.
\<close>

type_synonym listing = "(error + (string \<times> bool) list) option"

text \<open>The \<^verbatim>\<open>try\<close> inside both loops: read, parse, and take \<^verbatim>\<open>template.Metadata?.GeckoLambda\<close>,
  the \<^verbatim>\<open>metadata\<close> of the loops (\<open>md\<close> below).\<close>

definition read_metadata :: "store \<Rightarrow> string \<Rightarrow> error + js" where
  "read_metadata st lambdaDirPath =
     bind (readTemplate st lambdaDirPath) (\<lambda>t.
     bind (js_get t ''Metadata'') (\<lambda>m.
       Inr (opt_get m ''GeckoLambda'')))"

text \<open>The \<^verbatim>\<open>for\<close> loop of \<^verbatim>\<open>LambdaDetector.getConfiguration\<close>.\<close>

fun getConfiguration_loop ::
  "string \<Rightarrow> store \<Rightarrow> string \<Rightarrow> string \<Rightarrow> string list \<Rightarrow> LambdaConfig option" where
  "getConfiguration_loop now st ws sf [] = None"
| "getConfiguration_loop now st ws sf (lambdaDir # rest) =
     (let lambdaDirPath = path_join ws lambdaDir in
      if st lambdaDirPath \<noteq> None then
        (case read_metadata st lambdaDirPath of
           Inl e \<Rightarrow> getConfiguration_loop now st ws sf rest
         | Inr md \<Rightarrow>
             if truthy md \<and> get_prop md ''sourceFile'' = JStr sf
             then Some \<lparr> functionName = lambdaDir,
                         workspacePath = ws,
                         eventType = or_js (get_prop md ''eventType'') (JStr ''apigateway''),
                         lastModified = or_js (get_prop md ''lastModified'') (JStr now),
                         sourceFile = JStr sf,
                         sourceDir = or_js (get_prop md ''sourceDir'')
                                           (JStr (path_dirname sf)) \<rparr>
             else getConfiguration_loop now st ws sf rest)
      else getConfiguration_loop now st ws sf rest)"

text \<open>\<^verbatim>\<open>LambdaDetector.getConfiguration\<close>; \<open>ws\<close> is \<^verbatim>\<open>getGlobalWorkspacePath()\<close> and
  \<open>sf\<close> is \<^verbatim>\<open>documentUri.fsPath\<close>.\<close>

definition getConfiguration ::
  "string \<Rightarrow> listing \<Rightarrow> store \<Rightarrow> string \<Rightarrow> string \<Rightarrow> LambdaConfig option" where
  "getConfiguration now ls st ws sf =
     (case ls of
        None \<Rightarrow> None
      | Some (Inl e) \<Rightarrow> None
      | Some (Inr dirents) \<Rightarrow>
          getConfiguration_loop now st ws sf (map fst (filter snd dirents)))"

text \<open>The \<^verbatim>\<open>for\<close> loop of \<^verbatim>\<open>LambdaDetector.getAllLambdaFunctions\<close>; the result is what
  the pushes add.\<close>

fun getAllLambdaFunctions_loop ::
  "string \<Rightarrow> store \<Rightarrow> string \<Rightarrow> string list \<Rightarrow> LambdaConfig list" where
  "getAllLambdaFunctions_loop now st ws [] = []"
| "getAllLambdaFunctions_loop now st ws (lambdaDir # rest) =
     (let lambdaDirPath = path_join ws lambdaDir in
      if st lambdaDirPath \<noteq> None then
        (case read_metadata st lambdaDirPath of
           Inl e \<Rightarrow> getAllLambdaFunctions_loop now st ws rest
         | Inr md \<Rightarrow>
             if truthy md
             then \<lparr> functionName = lambdaDir,
                    workspacePath = ws,
                    eventType = or_js (get_prop md ''eventType'') (JStr ''apigateway''),
                    lastModified = or_js (get_prop md ''lastModified'') (JStr now),
                    sourceFile = or_js (get_prop md ''sourceFile'') (JStr ''''),
                    sourceDir = or_js (get_prop md ''sourceDir'') (JStr '''') \<rparr>
                  # getAllLambdaFunctions_loop now st ws rest
             else getAllLambdaFunctions_loop now st ws rest)
      else getAllLambdaFunctions_loop now st ws rest)"

definition getAllLambdaFunctions ::
  "string \<Rightarrow> listing \<Rightarrow> store \<Rightarrow> string \<Rightarrow> LambdaConfig list" where
  "getAllLambdaFunctions now ls st ws =
     (case ls of
        None \<Rightarrow> []
      | Some (Inl e) \<Rightarrow> []
      | Some (Inr dirents) \<Rightarrow>
          getAllLambdaFunctions_loop now st ws (map fst (filter snd dirents)))"

subsection \<open>What the scans are to compute\<close>

text \<open>
  The private metadata of the manifest of a function directory: the value under
  \<^verbatim>\<open>Metadata.GeckoLambda\<close> of a manifest that parses, undefined otherwise. A manifest
  has private metadata when the value is truthy, and claims a source file when its
  \<^verbatim>\<open>sourceFile\<close> is that string.
\<close>

definition private_metadata :: "store \<Rightarrow> string \<Rightarrow> string \<Rightarrow> js" where
  "private_metadata st ws lambdaDir =
     (case st (path_join ws lambdaDir) of
        Some (Doc t) \<Rightarrow> opt_get (get_prop t ''Metadata'') ''GeckoLambda''
      | _ \<Rightarrow> JUndefined)"

definition has_private_metadata :: "store \<Rightarrow> string \<Rightarrow> string \<Rightarrow> bool" where
  "has_private_metadata st ws lambdaDir = truthy (private_metadata st ws lambdaDir)"

definition claims :: "store \<Rightarrow> string \<Rightarrow> string \<Rightarrow> string \<Rightarrow> bool" where
  "claims st ws sf lambdaDir \<longleftrightarrow>
     has_private_metadata st ws lambdaDir
     \<and> get_prop (private_metadata st ws lambdaDir) ''sourceFile'' = JStr sf"

definition found_config :: "string \<Rightarrow> store \<Rightarrow> string \<Rightarrow> string \<Rightarrow> string \<Rightarrow> LambdaConfig" where
  "found_config now st ws sf lambdaDir =
     \<lparr> functionName = lambdaDir,
       workspacePath = ws,
       eventType = or_js (get_prop (private_metadata st ws lambdaDir) ''eventType'')
                         (JStr ''apigateway''),
       lastModified = or_js (get_prop (private_metadata st ws lambdaDir) ''lastModified'')
                            (JStr now),
       sourceFile = JStr sf,
       sourceDir = or_js (get_prop (private_metadata st ws lambdaDir) ''sourceDir'')
                         (JStr (path_dirname sf)) \<rparr>"

definition listed_config :: "string \<Rightarrow> store \<Rightarrow> string \<Rightarrow> string \<Rightarrow> LambdaConfig" where
  "listed_config now st ws lambdaDir =
     \<lparr> functionName = lambdaDir,
       workspacePath = ws,
       eventType = or_js (get_prop (private_metadata st ws lambdaDir) ''eventType'')
                         (JStr ''apigateway''),
       lastModified = or_js (get_prop (private_metadata st ws lambdaDir) ''lastModified'')
                            (JStr now),
       sourceFile = or_js (get_prop (private_metadata st ws lambdaDir) ''sourceFile'')
                          (JStr ''''),
       sourceDir = or_js (get_prop (private_metadata st ws lambdaDir) ''sourceDir'')
                         (JStr '''') \<rparr>"

text \<open>
  A workspace \<^verbatim>\<open>/ws\<close>: a function with complete metadata, one whose manifest has no
  private metadata, one whose manifest does not parse, one with an empty manifest, a
  directory without manifest and a plain file.
\<close>

definition ws_listing :: listing where
  "ws_listing = Some (Inr [(''README.md'', False), (''broken'', True), (''empty'', True),
                           (''legacy'', True), (''notes'', True), (''orders'', True)])"

definition ws_store :: store where
  "ws_store = Map.empty
     (''/ws/broken'' \<mapsto> Unparseable,
      ''/ws/empty'' \<mapsto> Doc JUndefined,
      ''/ws/legacy'' \<mapsto> Doc (JObj [(''Resources'', JObj [])]),
      ''/ws/orders'' \<mapsto> Doc (JObj [(''Metadata'', JObj [(''GeckoLambda'',
          JObj [(''sourceFile'', JStr ''/src/orders/main.go''),
                (''sourceDir'', JStr ''/src/orders''),
                (''eventType'', JStr ''sqs''),
                (''lastModified'', JStr ''T0''),
                (''version'', JStr ''2.0'')])])]))"

definition orders_config :: LambdaConfig where
  "orders_config =
     \<lparr> functionName = ''orders'', workspacePath = ''/ws'', eventType = JStr ''sqs'',
       lastModified = JStr ''T0'', sourceFile = JStr ''/src/orders/main.go'',
       sourceDir = JStr ''/src/orders'' \<rparr>"

section \<open>The normalized configuration\<close>

text \<open>
  \<^verbatim>\<open>LocalLambdaConfig\<close> of \<^verbatim>\<open>types.ts\<close>. The extraction fills the fields from values
  typed \<^verbatim>\<open>any\<close>, so a field holds whatever the manifest holds.
\<close>

record EnvironmentInfo =
  variables :: js
  lastUpdated :: js
  source :: js
  awsFunctionName :: js

record TemplateInfo =
  timeout :: js
  memorySize :: js
  description :: js

record LocalLambdaConfig =
  functionName :: js
  sourceMainFile :: js
  sourceDir :: js
  eventType :: js
  workspacePath :: string
  lastModified :: js
  runtime :: js
  architecture :: js
  buildMethod :: js
  environment :: EnvironmentInfo
  template :: TemplateInfo

section \<open>Extraction of the normalized configuration\<close>

text \<open>
  \<^verbatim>\<open>Object.keys(resources).find(key => resources[key].Type === "AWS::Serverless::Function")\<close>:
  the key of the first function resource, \<open>None\<close> when there is none; the callback
  raises on a null resource met before it.
\<close>

fun find_function_key :: "js \<Rightarrow> string list \<Rightarrow> error + string option" where
  "find_function_key resources [] = Inr None"
| "find_function_key resources (key # keys) =
     bind (js_get (get_prop resources key) ''Type'') (\<lambda>t.
       if t = JStr ''AWS::Serverless::Function'' then Inr (Some key)
       else find_function_key resources keys)"

text \<open>\<^verbatim>\<open>if (!functionResourceKey) { throw ... }\<close>: the empty key is falsy, as no key is.\<close>

definition truthy_key :: "string option \<Rightarrow> string option" where
  "truthy_key found =
     (case found of
        None \<Rightarrow> None
      | Some key \<Rightarrow> if key = [] then None else Some key)"

text \<open>
  \<^verbatim>\<open>TemplateManager.extractConfigFromTemplate\<close>, in two parts: \<open>extract_from\<close> is
  the body after the manifest \<open>t\<close> is read and \<^verbatim>\<open>geckoMetadata\<close> is taken from it.
  \<open>now\<close> is the clock reading used when the metadata has no \<^verbatim>\<open>lastModified\<close>;
  \<open>fallbackSourceInfo\<close> is undefined when the caller gives none.
\<close>

definition extract_from :: "string \<Rightarrow> string \<Rightarrow> js \<Rightarrow> js \<Rightarrow> js \<Rightarrow> error + LocalLambdaConfig" where
  "extract_from now lambdaDir fallbackSourceInfo t geckoMetadata =
     (let resources = or_js (get_prop t ''Resources'') (JObj []) in
       bind (object_keys resources) (\<lambda>keys.
       bind (find_function_key resources keys) (\<lambda>found.
         case truthy_key found of
           None \<Rightarrow> Inl ResourceNotFound
         | Some functionResourceKey \<Rightarrow>
             let functionResource = get_prop resources functionResourceKey;
                 properties = or_js (get_prop functionResource ''Properties'') (JObj []);
                 globals = or_js (opt_get (get_prop t ''Globals'') ''Function'') (JObj []);
                 name =
                   or_js (opt_get geckoMetadata ''functionName'')
                     (or_js (JStr (toLowerCase (strip_Function functionResourceKey)))
                            (JStr (path_basename lambdaDir)));
                 envVars = or_js (opt_get (get_prop properties ''Environment'') ''Variables'')
                                 (JObj [])
             in
             bind (if truthy (opt_get geckoMetadata ''eventType'')
                   then Inr (opt_get geckoMetadata ''eventType'')
                   else bind (detectEventTypeFromEvents
                                (or_js (get_prop properties ''Events'') (JObj [])))
                          (\<lambda>s. Inr (JStr s))) (\<lambda>evType.
               let sourceInfo_sourceMainFile =
                     or_js (opt_get geckoMetadata ''sourceFile'')
                       (or_js (opt_get fallbackSourceInfo ''sourceMainFile'') (JStr ''''));
                   sourceInfo_sourceDir =
                     or_js (opt_get geckoMetadata ''sourceDir'')
                       (or_js (opt_get fallbackSourceInfo ''sourceDir'') (JStr ''''));
                   envMetadata =
                     or_js (opt_get geckoMetadata ''environmentInfo'')
                       (JObj [(''lastUpdated'', JStr ''''), (''source'', JStr ''manual'')])
               in
               Inr \<lparr> functionName = name,
                     sourceMainFile = sourceInfo_sourceMainFile,
                     sourceDir = sourceInfo_sourceDir,
                     eventType = evType,
                     workspacePath = path_dirname lambdaDir,
                     lastModified = or_js (opt_get geckoMetadata ''lastModified'') (JStr now),
                     runtime =
                       or_js (opt_get geckoMetadata ''runtime'')
                         (or_js (get_prop properties ''Runtime'')
                           (or_js (get_prop globals ''Runtime'') (JStr ''provided.al2023''))),
                     architecture =
                       or_js (opt_get geckoMetadata ''architecture'')
                         (or_js (opt_get (get_prop properties ''Architectures'') ''0'')
                                (JStr ''arm64'')),
                     buildMethod =
                       or_js (opt_get geckoMetadata ''buildMethod'') (JStr ''direct''),
                     environment =
                       \<lparr> variables = envVars,
                         lastUpdated = get_prop envMetadata ''lastUpdated'',
                         source = get_prop envMetadata ''source'',
                         awsFunctionName = get_prop envMetadata ''awsFunctionName'' \<rparr>,
                     template =
                       \<lparr> timeout =
                           or_js (get_prop properties ''Timeout'')
                             (or_js (get_prop globals ''Timeout'') (JNum 30)),
                         memorySize =
                           or_js (get_prop properties ''MemorySize'')
                             (or_js (get_prop globals ''MemorySize'') (JNum 128)),
                         description =
                           or_js (get_prop t ''Description'')
                             (JStr (''Lambda function for '' @ js_to_string evType
                                    @ '' events'')) \<rparr> \<rparr>))))"

definition extractConfigFromTemplate ::
  "string \<Rightarrow> store \<Rightarrow> string \<Rightarrow> js \<Rightarrow> error + LocalLambdaConfig" where
  "extractConfigFromTemplate now st lambdaDir fallbackSourceInfo =
     bind (readTemplate st lambdaDir) (\<lambda>t.
     bind (js_get t ''Metadata'') (\<lambda>m.
       extract_from now lambdaDir fallbackSourceInfo t (opt_get m ''GeckoLambda'')))"

text \<open>
  A valid manifest for an SQS function: complete private metadata, with the provenance
  that an environment download from the deployed function \<^verbatim>\<open>prod-hello\<close> records.
\<close>

definition complete_template :: js where
  "complete_template =
     JObj [(''Description'', JStr ''hello''),
           (''Metadata'', JObj [(''GeckoLambda'',
              JObj [(''sourceFile'', JStr ''/src/main.go''),
                    (''sourceDir'', JStr ''/src''),
                    (''eventType'', JStr ''sqs''),
                    (''lastModified'', JStr ''T0''),
                    (''version'', JStr ''2.0''),
                    (''buildMethod'', JStr ''direct''),
                    (''architecture'', JStr ''arm64''),
                    (''runtime'', JStr ''provided.al2023''),
                    (''environmentInfo'',
                       JObj [(''lastUpdated'', JStr ''T0''),
                             (''source'', JStr ''aws''),
                             (''awsFunctionName'', JStr ''prod-hello''),
                             (''variableCount'', JNum 1)])])]),
           (''Resources'', JObj [(''HelloFunction'',
              JObj [(''Type'', JStr ''AWS::Serverless::Function''),
                    (''Properties'',
                       JObj [(''Runtime'', JStr ''provided.al2023''),
                             (''Architectures'', JArr [JStr ''arm64'']),
                             (''Environment'',
                                JObj [(''Variables'', JObj [(''STAGE'', JStr ''prod'')])]),
                             (''Events'',
                                JObj [(''SQSEvent'', JObj [(''Type'', JStr ''SQS'')])])])])])]"

definition complete_store :: store where
  "complete_store = Map.empty(''/ws/hello'' \<mapsto> Doc complete_template)"

definition complete_config :: LocalLambdaConfig where
  "complete_config =
     \<lparr> functionName = JStr ''hello'', sourceMainFile = JStr ''/src/main.go'',
       sourceDir = JStr ''/src'', eventType = JStr ''sqs'', workspacePath = ''/ws'',
       lastModified = JStr ''T0'', runtime = JStr ''provided.al2023'',
       architecture = JStr ''arm64'', buildMethod = JStr ''direct'',
       environment = \<lparr> variables = JObj [(''STAGE'', JStr ''prod'')],
                       lastUpdated = JStr ''T0'', source = JStr ''aws'',
                       awsFunctionName = JStr ''prod-hello'' \<rparr>,
       template = \<lparr> timeout = JNum 30, memorySize = JNum 128,
                    description = JStr ''hello'' \<rparr> \<rparr>"

text \<open>The same manifest after \<^verbatim>\<open>ConfigManager.updateGeckoMetadata\<close> at time \<^verbatim>\<open>T1\<close>.\<close>

definition replaced_template :: js where
  "replaced_template =
     JObj [(''Description'', JStr ''hello''),
           (''Metadata'', JObj [(''GeckoLambda'',
              JObj [(''sourceFile'', JStr ''/src/main.go''),
                    (''sourceDir'', JStr ''/src''),
                    (''eventType'', JStr ''sqs''),
                    (''lastModified'', JStr ''T1''),
                    (''version'', JStr ''2.0'')])]),
           (''Resources'', JObj [(''HelloFunction'',
              JObj [(''Type'', JStr ''AWS::Serverless::Function''),
                    (''Properties'',
                       JObj [(''Runtime'', JStr ''provided.al2023''),
                             (''Architectures'', JArr [JStr ''arm64'']),
                             (''Environment'',
                                JObj [(''Variables'', JObj [(''STAGE'', JStr ''prod'')])]),
                             (''Events'',
                                JObj [(''SQSEvent'', JObj [(''Type'', JStr ''SQS'')])])])])])]"

definition replaced_config :: LocalLambdaConfig where
  "replaced_config =
     \<lparr> functionName = JStr ''hello'', sourceMainFile = JStr ''/src/main.go'',
       sourceDir = JStr ''/src'', eventType = JStr ''sqs'', workspacePath = ''/ws'',
       lastModified = JStr ''T1'', runtime = JStr ''provided.al2023'',
       architecture = JStr ''arm64'', buildMethod = JStr ''direct'',
       environment = \<lparr> variables = JObj [(''STAGE'', JStr ''prod'')],
                       lastUpdated = JStr '''', source = JStr ''manual'',
                       awsFunctionName = JUndefined \<rparr>,
       template = \<lparr> timeout = JNum 30, memorySize = JNum 128,
                    description = JStr ''hello'' \<rparr> \<rparr>"

section \<open>Creation of a manifest\<close>

text \<open>\<^verbatim>\<open>TemplateManager.generateEnvironmentSection\<close>: the properties spread into
  \<^verbatim>\<open>Properties\<close>.\<close>

definition generateEnvironmentSection :: "js \<Rightarrow> (string \<times> js) list" where
  "generateEnvironmentSection vars =
     (if \<not> truthy vars \<or> length (own_props vars) = 0 then []
      else [(''Environment'', JObj [(''Variables'', vars)])])"

text \<open>The table of \<^verbatim>\<open>TemplateManager.getEventConfiguration\<close>.\<close>

definition event_configurations :: "(string \<times> js) list" where
  "event_configurations =
     [(''apigateway'', JObj [(''ApiEvent'',
         JObj [(''Type'', JStr ''Api''),
               (''Properties'', JObj [(''Path'', JStr ''/hello''),
                                     (''Method'', JStr ''get'')])])]),
      (''s3'', JObj [(''S3Event'',
         JObj [(''Type'', JStr ''S3''),
               (''Properties'',
                  JObj [(''Bucket'', JObj [(''Ref'', JStr ''S3Bucket'')]),
                        (''Events'', JStr ''s3:ObjectCreated:*''),
                        (''Filter'', JObj [(''S3Key'', JObj [(''Rules'',
                           JArr [JObj [(''Name'', JStr ''prefix''),
                                       (''Value'', JStr ''uploads/'')]])])])])])]),
      (''dynamodb'', JObj [(''DynamoDBEvent'',
         JObj [(''Type'', JStr ''DynamoDB''),
               (''Properties'',
                  JObj [(''Stream'', JObj [(''Fn::GetAtt'',
                           JArr [JStr ''DynamoDBTable'', JStr ''StreamArn''])]),
                        (''StartingPosition'', JStr ''TRIM_HORIZON''),
                        (''BatchSize'', JNum 10)])])]),
      (''sqs'', JObj [(''SQSEvent'',
         JObj [(''Type'', JStr ''SQS''),
               (''Properties'',
                  JObj [(''Queue'', JObj [(''Fn::GetAtt'',
                           JArr [JStr ''SQSQueue'', JStr ''Arn''])]),
                        (''BatchSize'', JNum 10)])])]),
      (''default'', JObj [(''DefaultEvent'',
         JObj [(''Type'', JStr ''Schedule''),
               (''Properties'', JObj [(''Schedule'', JStr ''rate(10 minutes)'')])])])]"

text \<open>
  The table is an object literal, so a lookup also finds what \<^verbatim>\<open>Object.prototype\<close>
  gives: these functions, and under \<^verbatim>\<open>__proto__\<close> the prototype itself, an object
  without own properties.
\<close>

definition object_prototype_functions :: "string list" where
  "object_prototype_functions =
     [''constructor'', ''hasOwnProperty'', ''isPrototypeOf'', ''propertyIsEnumerable'',
      ''toLocaleString'', ''toString'', ''valueOf'', ''__defineGetter__'',
      ''__defineSetter__'', ''__lookupGetter__'', ''__lookupSetter__'']"

text \<open>
  \<^verbatim>\<open>configurations[eventType] || configurations.default\<close>. \<open>None\<close> is an inherited
  function: it is truthy, so the default is not taken, and it is no value of a
  document.
\<close>

definition getEventConfiguration :: "js \<Rightarrow> js option" where
  "getEventConfiguration ev =
     (let key = js_to_string ev in
      if key \<in> set object_prototype_functions then None
      else if key = ''__proto__'' then Some (JObj [])
      else Some (or_js (get_prop (JObj event_configurations) key)
                       (get_prop (JObj event_configurations) ''default'')))"

text \<open>
  \<^verbatim>\<open>TemplateManager.createTemplate\<close>. A field that the partial configuration does not
  give is undefined. \<^verbatim>\<open>toPascalCase\<close> is applied to \<^verbatim>\<open>config.functionName\<close>, which
  raises when that is not a string. \<^verbatim>\<open>yaml.dump\<close> raises on a function, so that an
  event type naming an inherited function leaves no manifest written.
\<close>

definition createTemplate :: "string \<Rightarrow> store \<Rightarrow> string \<Rightarrow> LocalLambdaConfig \<Rightarrow> error + store" where
  "createTemplate now st lambdaDir config =
     (case functionName config of
        JStr name \<Rightarrow>
         (case getEventConfiguration (eventType config) of
            None \<Rightarrow> Inl DumpFailure
          | Some eventConfiguration \<Rightarrow>
          let fn = toPascalCase name;
              timeout0 = or_js (timeout (template config)) (JNum 30);
              memorySize0 = or_js (memorySize (template config)) (JNum 128);
              description0 =
                or_js (description (template config))
                  (JStr (''Lambda function for '' @ js_to_string (eventType config)
                         @ '' events''));
              environmentSection =
                generateEnvironmentSection (variables (environment config));
              templateObject =
                JObj [(''AWSTemplateFormatVersion'', JStr ''2010-09-09''),
                      (''Transform'', JStr ''AWS::Serverless-2016-10-31''),
                      (''Description'',
                         JStr (name @ [CHR 0x0A, CHR 0x0A] @ js_to_string description0)),
                      (''Metadata'', JObj [(''GeckoLambda'',
                         JObj [(''sourceFile'', or_js (sourceMainFile config) (JStr '''')),
                               (''sourceDir'', or_js (sourceDir config) (JStr '''')),
                               (''eventType'', or_js (eventType config) (JStr ''apigateway'')),
                               (''lastModified'', JStr now),
                               (''version'', JStr ''2.0''),
                               (''buildMethod'', or_js (buildMethod config) (JStr ''direct'')),
                               (''architecture'', or_js (architecture config) (JStr ''arm64'')),
                               (''runtime'',
                                  or_js (runtime config) (JStr ''provided.al2023''))])]),
                      (''Globals'', JObj [(''Function'',
                         JObj [(''Timeout'', timeout0),
                               (''MemorySize'', memorySize0),
                               (''Runtime'',
                                  or_js (runtime config) (JStr ''provided.al2023''))])]),
                      (''Resources'', JObj [(fn @ ''Function'',
                         JObj [(''Type'', JStr ''AWS::Serverless::Function''),
                               (''Properties'', JObj (assign
                                  (assign
                                     [(''CodeUri'', JStr ''build/''),
                                      (''Handler'', JStr ''bootstrap''),
                                      (''Runtime'',
                                         or_js (runtime config) (JStr ''provided.al2023'')),
                                      (''Architectures'',
                                         JArr [or_js (architecture config) (JStr ''arm64'')])]
                                     environmentSection)
                                  [(''Events'', eventConfiguration)]))])]),
                      (''Outputs'', JObj (assign 
                         [(fn @ ''Function'',
                             JObj [(''Description'', JStr ''Lambda Function ARN''),
                                   (''Value'', JObj [(''Fn::GetAtt'',
                                      JArr [JStr (fn @ ''Function''), JStr ''Arn''])])])]
                         [(fn @ ''FunctionIamRole'',
                             JObj [(''Description'',
                                      JStr ''Implicit IAM Role created for function''),
                                   (''Value'', JObj [(''Fn::GetAtt'',
                                      JArr [JStr (fn @ ''FunctionRole''), JStr ''Arn''])])])]))]
          in Inr (writeTemplate st lambdaDir templateObject))
      | _ \<Rightarrow> Inl TypeError)"

text \<open>The configuration that \<^verbatim>\<open>ConfigCommand.createLambdaConfiguration\<close> hands to
  \<^verbatim>\<open>createTemplate\<close> for a function named \<open>name\<close>.\<close>

definition new_config :: "string \<Rightarrow> string \<Rightarrow> LocalLambdaConfig" where
  "new_config name ev =
     \<lparr> functionName = JStr name, sourceMainFile = JStr ''/src/main.go'',
       sourceDir = JStr ''/src'', eventType = JStr ev, workspacePath = ''/ws'',
       lastModified = JStr ''T0'', runtime = JStr ''provided.al2023'',
       architecture = JStr ''arm64'', buildMethod = JStr ''direct'',
       environment = \<lparr> variables = JObj [], lastUpdated = JStr '''',
                       source = JStr ''manual'', awsFunctionName = JUndefined \<rparr>,
       template = \<lparr> timeout = JNum 30, memorySize = JNum 128,
                    description = JStr (''Lambda function for '' @ ev @ '' events'') \<rparr> \<rparr>"

text \<open>Create a manifest in an empty store, then extract the configuration from it.\<close>

definition create_then_extract :: "string \<Rightarrow> string \<Rightarrow> LocalLambdaConfig \<Rightarrow> error + LocalLambdaConfig" where
  "create_then_extract now lambdaDir config =
     bind (createTemplate now Map.empty lambdaDir config) (\<lambda>st.
       extractConfigFromTemplate now st lambdaDir JUndefined)"

text \<open>A separator directly followed by a word character occurs in the name: the first
  \<^verbatim>\<open>replace\<close> of \<^verbatim>\<open>toPascalCase\<close> has a match.\<close>

fun has_joint :: "string \<Rightarrow> bool" where
  "has_joint (c # d # cs) = ((is_sep c \<and> is_word d) \<or> has_joint (d # cs))"
| "has_joint cs = False"

section \<open>Migration from the global registry\<close>

text \<open>
  The workspace as the migration sees it: the text of \<^verbatim>\<open>.gecko-lambda-config.json\<close> and
  of \<^verbatim>\<open>.gecko-lambda-config.json.backup\<close> when they exist, and the manifests. The
  registry is never parsed, so it stays text.
\<close>

record workspace_state =
  legacy_config :: "string option"
  legacy_backup :: "string option"
  manifest_store :: store

text \<open>\<^verbatim>\<open>LambdaDetector.migrateFromGlobalConfig\<close>: the body in \<^verbatim>\<open>detector.ts\<close> is a
  comment and no statement.\<close>

definition migrateFromGlobalConfig :: "workspace_state \<Rightarrow> workspace_state" where
  "migrateFromGlobalConfig w = w"

text \<open>\<^verbatim>\<open>ConfigManager.cleanupGlobalConfig\<close>: \<^verbatim>\<open>renameSync\<close> onto the backup name, taken to
  succeed.\<close>

definition cleanupGlobalConfig :: "workspace_state \<Rightarrow> workspace_state" where
  "cleanupGlobalConfig w =
     (case legacy_config w of
        None \<Rightarrow> w
      | Some content \<Rightarrow> w\<lparr> legacy_config := None, legacy_backup := Some content \<rparr>)"

text \<open>\<^verbatim>\<open>performUnifiedSystemMigration\<close> of the extension's entry module.\<close>

definition performUnifiedSystemMigration :: "bool \<Rightarrow> workspace_state \<Rightarrow> workspace_state" where
  "performUnifiedSystemMigration force w =
     (let globalConfigExists = (legacy_config w \<noteq> None) in
      if globalConfigExists \<or> force
      then cleanupGlobalConfig (migrateFromGlobalConfig w)
      else w)"

text \<open>A workspace with a registry of one entry and no function directory yet.\<close>

definition legacy_text :: string where
  "legacy_text = ''{ /src/orders/main.go: { functionName: orders, eventType: sqs } }''"

definition legacy_workspace :: workspace_state where
  "legacy_workspace =
     \<lparr> legacy_config = Some legacy_text, legacy_backup = None, manifest_store = Map.empty \<rparr>"

section \<open>The freshness check\<close>

text \<open>
  What \<^verbatim>\<open>BuildUtils.needsRebuild\<close> asks of the file system: \<^verbatim>\<open>fs.existsSync\<close>, which
  never raises, and the modification time of \<^verbatim>\<open>fs.statSync\<close>, which may. The two are
  independent fields, so a path that exists and cannot be read is a state of the model.
\<close>

record filesystem =
  existsSync :: "string \<Rightarrow> bool"
  statSync :: "string \<Rightarrow> error + nat"

text \<open>A value that is not a string names no file: \<^verbatim>\<open>existsSync\<close> answers false.\<close>

definition exists_js :: "filesystem \<Rightarrow> js \<Rightarrow> bool" where
  "exists_js fs v = (case v of JStr p \<Rightarrow> existsSync fs p | _ \<Rightarrow> False)"

definition stat_js :: "filesystem \<Rightarrow> js \<Rightarrow> error + nat" where
  "stat_js fs v = (case v of JStr p \<Rightarrow> statSync fs p | _ \<Rightarrow> Inl TypeError)"

definition needsRebuild_try :: "filesystem \<Rightarrow> LocalLambdaConfig \<Rightarrow> string \<Rightarrow> error + bool" where
  "needsRebuild_try fs localConfig lambdaDir =
     (if \<not> truthy (sourceMainFile localConfig) \<or> \<not> exists_js fs (sourceMainFile localConfig)
      then Inr True
      else
        bind (stat_js fs (sourceMainFile localConfig)) (\<lambda>sourceStats.
          let buildDir = path_join lambdaDir ''build'' in
          if \<not> existsSync fs buildDir then Inr True
          else
            let binaryPath = path_join buildDir ''bootstrap'' in
            if \<not> existsSync fs binaryPath then Inr True
            else
              bind (statSync fs binaryPath) (\<lambda>binaryStats.
                let templatePath = path_join lambdaDir ''template.yaml'' in
                bind (if existsSync fs templatePath
                      then bind (statSync fs templatePath) (\<lambda>templateStats.
                             Inr (templateStats > binaryStats))
                      else Inr False) (\<lambda>templateNewer.
                  if templateNewer then Inr True
                  else Inr (sourceStats > binaryStats)))))"

text \<open>The \<^verbatim>\<open>catch\<close> of \<^verbatim>\<open>needsRebuild\<close> answers true.\<close>

definition needsRebuild :: "filesystem \<Rightarrow> LocalLambdaConfig \<Rightarrow> string \<Rightarrow> bool" where
  "needsRebuild fs localConfig lambdaDir =
     (case needsRebuild_try fs localConfig lambdaDir of Inl e \<Rightarrow> True | Inr b \<Rightarrow> b)"

text \<open>A function directory \<^verbatim>\<open>/ws/fn\<close> with its build, and a source file, at given times.\<close>

definition built_fs :: "nat \<Rightarrow> nat \<Rightarrow> nat \<Rightarrow> filesystem" where
  "built_fs s t b =
     \<lparr> existsSync = (\<lambda>p. p \<in> set [''/src/main.go'', ''/ws/fn/build'',
                                     ''/ws/fn/build/bootstrap'', ''/ws/fn/template.yaml'']),
       statSync = (\<lambda>p. if p = ''/src/main.go'' then Inr s
                        else if p = ''/ws/fn/template.yaml'' then Inr t
                        else if p = ''/ws/fn/build/bootstrap'' then Inr b
                        else if p = ''/ws/fn/build'' then Inr b
                        else Inl FsError) \<rparr>"

definition unbuilt_fs :: "nat \<Rightarrow> nat \<Rightarrow> filesystem" where
  "unbuilt_fs s t =
     \<lparr> existsSync = (\<lambda>p. p \<in> set [''/src/main.go'', ''/ws/fn/template.yaml'']),
       statSync = (\<lambda>p. if p = ''/src/main.go'' then Inr s
                        else if p = ''/ws/fn/template.yaml'' then Inr t
                        else Inl FsError) \<rparr>"

definition config_of_source :: "js \<Rightarrow> LocalLambdaConfig" where
  "config_of_source src =
     \<lparr> functionName = JStr ''fn'', sourceMainFile = src, sourceDir = JStr ''/src'',
       eventType = JStr ''sqs'', workspacePath = ''/ws'', lastModified = JStr '''',
       runtime = JStr ''provided.al2023'', architecture = JStr ''arm64'',
       buildMethod = JStr ''direct'',
       environment = \<lparr> variables = JObj [], lastUpdated = JStr '''',
                       source = JStr ''manual'', awsFunctionName = JUndefined \<rparr>,
       template = \<lparr> timeout = JNum 30, memorySize = JNum 128, description = JStr '''' \<rparr> \<rparr>"

section \<open>Basic facts about values and the store\<close>

lemma index_key_hd: "index_key n \<noteq> [] \<and> hd (index_key n) \<in> set ''0123456789''"
proof (induction n rule: index_key.induct)
  case (1 n)
  show ?case
  proof (cases "n < 10")
    case True
    then have "''0123456789'' ! n \<in> set ''0123456789''"
      by (intro nth_mem) simp
    with True show ?thesis
      by (subst index_key.simps, subst (2) index_key.simps) simp
  next
    case False
    with 1 show ?thesis
      by (subst index_key.simps, subst (2) index_key.simps) simp
  qed
qed

lemma map_of_zip_key:
  "map_of (zip ks vs) k = Some v \<Longrightarrow> k \<in> set ks"
  by (meson map_of_SomeD set_zip_leftD)

lemma get_prop_named:
  assumes "get_prop v k \<noteq> JUndefined" and "hd k \<notin> set ''0123456789''"
  shows "\<exists>ps. v = JObj ps \<and> map_of ps k = Some (get_prop v k)"
proof (cases v)
  case (JObj ps)
  with assms show ?thesis by (auto simp: get_prop_def split: option.splits)
next
  case (JArr xs)
  with assms(1) obtain x where "map_of (zip (map index_key [0..<length xs]) xs) k = Some x"
    by (auto simp: get_prop_def split: option.splits)
  then have "k \<in> set (map index_key [0..<length xs])" by (rule map_of_zip_key)
  with assms(2) index_key_hd show ?thesis by auto
next
  case (JStr s)
  with assms(1) obtain x where
    "map_of (zip (map index_key [0..<length s]) (map (\<lambda>c. JStr [c]) s)) k = Some x"
    by (auto simp: get_prop_def split: option.splits)
  then have "k \<in> set (map index_key [0..<length s])" by (rule map_of_zip_key)
  with assms(2) index_key_hd show ?thesis by auto
qed (use assms in \<open>auto simp: get_prop_def\<close>)

lemma get_prop_JObj:
  "get_prop (JObj ps) k = (case map_of ps k of Some x \<Rightarrow> x | None \<Rightarrow> JUndefined)"
  by (simp add: get_prop_def)

lemma opt_get_JObj: "opt_get (JObj ps) k = get_prop (JObj ps) k"
  by (simp add: opt_get_def)

lemma get_prop_nullish: "nullish v \<Longrightarrow> get_prop v k = JUndefined"
  by (cases v) (auto simp: get_prop_def)

lemma truthy_or_js: "truthy b \<Longrightarrow> truthy (or_js a b)"
  by (simp add: or_js_def)

lemma read_Doc: "readTemplate st dir = Inr t \<Longrightarrow> st dir = Some (Doc t)"
  by (auto simp: readTemplate_def split: option.splits manifest_file.splits)

lemmas eval_defs = extractConfigFromTemplate_def extract_from_def truthy_key_def readTemplate_def
  writeTemplate_def bind_def js_get_def get_prop_def opt_get_def or_js_def object_keys_def
  Let_def index_key.simps upt_conv_Cons toLowerCase_def strip_Function_def path_dirname_def
  path_basename_def validateGeckoMetadata_def detectEventTypeFromEvents_def event_switch_def

section \<open>Properties of the freshness check\<close>

text \<open>
  Claim C1. \<^verbatim>\<open>needsRebuild\<close> follows the ordered algorithm. It answers true when the
  source file is unset or missing; true when the build directory or the bootstrap
  artifact is missing, whatever the timestamps; true when \<^verbatim>\<open>template.yaml\<close> exists and
  its modification time is strictly greater than the artifact's, whatever the source's;
  true when the source's modification time is strictly greater than the artifact's.
  It answers false exactly when source, build directory and artifact exist, their
  times can be read, and the artifact is not older than the source nor than the
  manifest (when there is one): equal times do not ask for a rebuild, since both
  comparisons are strict.
\<close>

theorem needsRebuild_ordered:
  "(\<not> truthy (sourceMainFile c) \<or> \<not> exists_js fs (sourceMainFile c) \<longrightarrow> needsRebuild fs c d)
   \<and> (\<not> existsSync fs (path_join d ''build'')
        \<or> \<not> existsSync fs (path_join (path_join d ''build'') ''bootstrap'')
        \<longrightarrow> needsRebuild fs c d)
   \<and> (existsSync fs (path_join d ''template.yaml'')
        \<and> statSync fs (path_join d ''template.yaml'') = Inr tm
        \<and> statSync fs (path_join (path_join d ''build'') ''bootstrap'') = Inr bm
        \<and> bm < tm \<longrightarrow> needsRebuild fs c d)
   \<and> (stat_js fs (sourceMainFile c) = Inr sm
        \<and> statSync fs (path_join (path_join d ''build'') ''bootstrap'') = Inr bm
        \<and> bm < sm \<longrightarrow> needsRebuild fs c d)
   \<and> (\<not> needsRebuild fs c d \<longleftrightarrow>
        (\<exists>p s b. sourceMainFile c = JStr p \<and> p \<noteq> [] \<and> existsSync fs p
           \<and> statSync fs p = Inr s
           \<and> existsSync fs (path_join d ''build'')
           \<and> existsSync fs (path_join (path_join d ''build'') ''bootstrap'')
           \<and> statSync fs (path_join (path_join d ''build'') ''bootstrap'') = Inr b
           \<and> s \<le> b
           \<and> (existsSync fs (path_join d ''template.yaml'') \<longrightarrow>
                (\<exists>t. statSync fs (path_join d ''template.yaml'') = Inr t \<and> t \<le> b))))"
proof -
  have missing_source:
    "\<not> truthy (sourceMainFile c) \<or> \<not> exists_js fs (sourceMainFile c) \<longrightarrow> needsRebuild fs c d"
    by (auto simp: needsRebuild_def needsRebuild_try_def)
  have missing_artifact:
    "\<not> existsSync fs (path_join d ''build'')
       \<or> \<not> existsSync fs (path_join (path_join d ''build'') ''bootstrap'')
     \<longrightarrow> needsRebuild fs c d"
    by (auto simp: needsRebuild_def needsRebuild_try_def bind_def Let_def split: sum.splits)
  have manifest_newer:
    "existsSync fs (path_join d ''template.yaml'')
       \<and> statSync fs (path_join d ''template.yaml'') = Inr tm
       \<and> statSync fs (path_join (path_join d ''build'') ''bootstrap'') = Inr bm
       \<and> bm < tm \<longrightarrow> needsRebuild fs c d"
    by (auto simp: needsRebuild_def needsRebuild_try_def bind_def Let_def split: sum.splits)
  have source_newer:
    "stat_js fs (sourceMainFile c) = Inr sm
       \<and> statSync fs (path_join (path_join d ''build'') ''bootstrap'') = Inr bm
       \<and> bm < sm \<longrightarrow> needsRebuild fs c d"
    by (auto simp: needsRebuild_def needsRebuild_try_def bind_def Let_def split: sum.splits)
  have fresh:
    "\<not> needsRebuild fs c d \<longleftrightarrow>
        (\<exists>p s b. sourceMainFile c = JStr p \<and> p \<noteq> [] \<and> existsSync fs p
           \<and> statSync fs p = Inr s
           \<and> existsSync fs (path_join d ''build'')
           \<and> existsSync fs (path_join (path_join d ''build'') ''bootstrap'')
           \<and> statSync fs (path_join (path_join d ''build'') ''bootstrap'') = Inr b
           \<and> s \<le> b
           \<and> (existsSync fs (path_join d ''template.yaml'') \<longrightarrow>
                (\<exists>t. statSync fs (path_join d ''template.yaml'') = Inr t \<and> t \<le> b)))"
    by (cases "sourceMainFile c")
       (auto simp: needsRebuild_def needsRebuild_try_def bind_def exists_js_def stat_js_def
                   Let_def split: sum.splits if_splits)
  from missing_source missing_artifact manifest_newer source_newer fresh
  show ?thesis by blast
qed

theorem needsRebuild_ordered_witness:
  "needsRebuild (built_fs 5 7 10) (config_of_source (JStr '''')) ''/ws/fn''
   \<and> needsRebuild (unbuilt_fs 5 7) (config_of_source (JStr ''/src/main.go'')) ''/ws/fn''
   \<and> needsRebuild (built_fs 5 20 10) (config_of_source (JStr ''/src/main.go'')) ''/ws/fn''
   \<and> needsRebuild (built_fs 20 7 10) (config_of_source (JStr ''/src/main.go'')) ''/ws/fn''
   \<and> \<not> needsRebuild (built_fs 5 7 10) (config_of_source (JStr ''/src/main.go'')) ''/ws/fn''
   \<and> \<not> needsRebuild (built_fs 10 10 10) (config_of_source (JStr ''/src/main.go'')) ''/ws/fn''"
  using needsRebuild_ordered [of "config_of_source (JStr '''')" "built_fs 5 7 10" "''/ws/fn''" 0 0 0]
        needsRebuild_ordered [of "config_of_source (JStr ''/src/main.go'')" "unbuilt_fs 5 7" "''/ws/fn''" 0 0 0]
        needsRebuild_ordered [of "config_of_source (JStr ''/src/main.go'')" "built_fs 5 20 10" "''/ws/fn''" 20 10 5]
        needsRebuild_ordered [of "config_of_source (JStr ''/src/main.go'')" "built_fs 20 7 10" "''/ws/fn''" 7 10 20]
        needsRebuild_ordered [of "config_of_source (JStr ''/src/main.go'')" "built_fs 5 7 10" "''/ws/fn''" 7 10 5]
        needsRebuild_ordered [of "config_of_source (JStr ''/src/main.go'')" "built_fs 10 10 10" "''/ws/fn''" 10 10 10]
  by (simp add: built_fs_def unbuilt_fs_def config_of_source_def path_join_def
                exists_js_def stat_js_def)


section \<open>Properties of the event-type inference\<close>

lemma event_switch_known: "event_switch v \<in> known_tags"
  by (simp add: event_switch_def known_tags_def)

lemma detectEventTypeFromTemplate_known: "detectEventTypeFromTemplate t \<in> known_tags"
proof (cases "detectEventTypeFromTemplate_body t")
  case (Inl e)
  then show ?thesis
    by (simp add: detectEventTypeFromTemplate_def known_tags_def)
next
  case (Inr r)
  show ?thesis
  proof (cases r)
    case None
    with Inr show ?thesis
      by (simp add: detectEventTypeFromTemplate_def known_tags_def)
  next
    case (Some s)
    with Inr have "detectEventTypeFromTemplate_body t = Inr (Some s)" by simp
    then have "\<exists>v. s = event_switch v"
      by (auto simp: detectEventTypeFromTemplate_body_def bind_def
               split: sum.splits if_splits list.splits)
    with Inr Some show ?thesis
      by (auto simp: detectEventTypeFromTemplate_def event_switch_known)
  qed
qed

lemma apigateway_known: "''apigateway'' \<in> known_tags"
  by (simp add: known_tags_def)

lemma detectEventTypeFromEvents_known:
  "detectEventTypeFromEvents ev = Inr s \<Longrightarrow> s \<in> known_tags"
  by (auto simp: detectEventTypeFromEvents_def bind_def event_switch_known apigateway_known
           split: sum.splits list.splits)

text \<open>
  Claim C9. The inference is to answer one of the four tags on every trigger
  configuration, with \<^verbatim>\<open>apigateway\<close> on an inference error.
  \<^verbatim>\<open>ConfigManager.detectEventTypeFromTemplate\<close> does, by its \<^verbatim>\<open>catch\<close> (lemma
  \<open>detectEventTypeFromTemplate_known\<close>). \<^verbatim>\<open>TemplateManager.detectEventTypeFromEvents\<close>
  has no \<^verbatim>\<open>catch\<close>: on a trigger map whose first trigger is null, as YAML gives for
  a key with no value, reading \<^verbatim>\<open>firstEvent.Type\<close> raises, where the sibling answers
  \<^verbatim>\<open>apigateway\<close> for the same manifest.
\<close>

theorem detectEventTypeFromEvents_null_trigger:
  "detectEventTypeFromEvents (JObj [(''ApiEvent'', JNull)]) = Inl TypeError
   \<and> detectEventTypeFromTemplate
        (JObj [(''Resources'', JObj [(''HelloFunction'',
           JObj [(''Type'', JStr ''AWS::Serverless::Function''),
                 (''Properties'', JObj [(''Events'', JObj [(''ApiEvent'', JNull)])])])])])
       = ''apigateway''"
  by (simp add: detectEventTypeFromEvents_def detectEventTypeFromTemplate_def
                detectEventTypeFromTemplate_body_def bind_def object_keys_def object_values_def
                js_get_def opt_get_def get_prop_def or_js_def)


section \<open>Properties of the metadata merge\<close>

lemma filter_update_other:
  "filter (\<lambda>p. fst p \<noteq> k) (AList.update k v ps) = filter (\<lambda>p. fst p \<noteq> k) ps"
  by (induction ps) auto

lemma other_props_set:
  "js_set v k x = Inr v' \<Longrightarrow> other_props k v' = other_props k v"
  by (cases v) (auto simp: other_props_def filter_update_other)

lemma get_prop_set_same:
  "js_set (JObj ps) k x = Inr v' \<Longrightarrow> get_prop v' k = x"
  by (auto simp: get_prop_def update_conv' split: option.splits)

lemma other_props_falsy: "\<not> truthy v \<Longrightarrow> other_props k v = []"
  by (cases v) (auto simp: other_props_def)

lemma install_frame:
  assumes get: "js_get t0 ''Metadata'' = Inr m0"
    and ensure: "(if \<not> truthy m0 then js_set t0 ''Metadata'' (JObj []) else Inr t0) = Inr t1"
    and inner: "js_set (if \<not> truthy m0 then JObj [] else m0) ''GeckoLambda'' block = Inr m2"
    and outer: "js_set t1 ''Metadata'' m2 = Inr t2"
  shows "other_props ''Metadata'' t2 = other_props ''Metadata'' t0
       \<and> other_props ''GeckoLambda'' (get_prop t2 ''Metadata'')
           = other_props ''GeckoLambda'' (get_prop t0 ''Metadata'')"
proof
  have "other_props ''Metadata'' t1 = other_props ''Metadata'' t0"
    using ensure by (auto simp: other_props_set split: if_splits)
  with outer show "other_props ''Metadata'' t2 = other_props ''Metadata'' t0"
    by (simp add: other_props_set)
next
  from get have m0: "m0 = get_prop t0 ''Metadata''"
    by (auto simp: js_get_def split: if_splits)
  have m2: "other_props ''GeckoLambda'' m2 = other_props ''GeckoLambda'' m0"
  proof (cases "truthy m0")
    case True
    with inner show ?thesis by (simp add: other_props_set)
  next
    case False
    with inner have "other_props ''GeckoLambda'' m2 = other_props ''GeckoLambda'' (JObj [])"
      by (simp add: other_props_set)
    moreover have "other_props ''GeckoLambda'' (JObj []) = []"
      by (simp add: other_props_def)
    moreover from False have "other_props ''GeckoLambda'' m0 = []"
      by (rule other_props_falsy)
    ultimately show ?thesis by simp
  qed
  show "other_props ''GeckoLambda'' (get_prop t2 ''Metadata'')
           = other_props ''GeckoLambda'' (get_prop t0 ''Metadata'')"
  proof (cases t1)
    case (JObj ps)
    with outer have "get_prop t2 ''Metadata'' = m2" by (simp add: get_prop_set_same)
    with m2 m0 show ?thesis by simp
  next
    case (JArr xs)
    with outer have "t2 = t1" by auto
    moreover from ensure JArr have "t0 = t1"
      by (cases t0) (auto split: if_splits)
    ultimately show ?thesis by simp
  qed (use outer in auto)
qed

text \<open>
  Claim C4. Merging private metadata into a manifest, by
  \<^verbatim>\<open>TemplateManager.updateGeckoMetadata\<close> or by \<^verbatim>\<open>ConfigManager.updateGeckoMetadata\<close>,
  leaves every other section as it was: when the write succeeds, the manifests of the
  other function directories are untouched, the document keeps every top-level section
  other than \<^verbatim>\<open>Metadata\<close> with its value and in its place, and \<^verbatim>\<open>Metadata\<close> keeps every
  entry other than the \<^verbatim>\<open>GeckoLambda\<close> block. No unknown key is dropped.
\<close>

theorem updateGeckoMetadata_frame:
  assumes "TemplateManager_updateGeckoMetadata now st dir sf sd et = Inr st'
           \<or> ConfigManager_updateGeckoMetadata now st dir sf sd et = Inr st'"
  shows "(\<forall>d. d \<noteq> dir \<longrightarrow> st' d = st d)
       \<and> (\<exists>t t'. st dir = Some (Doc t) \<and> st' dir = Some (Doc t')
            \<and> other_props ''Metadata'' t' = other_props ''Metadata'' t
            \<and> other_props ''GeckoLambda'' (get_prop t' ''Metadata'')
                = other_props ''GeckoLambda'' (get_prop t ''Metadata''))"
proof -
  from assms obtain t0 m0 t1 block m2 t2 where
    rd: "readTemplate st dir = Inr t0"
    and get: "js_get t0 ''Metadata'' = Inr m0"
    and ensure: "(if \<not> truthy m0 then js_set t0 ''Metadata'' (JObj []) else Inr t0) = Inr t1"
    and inner: "js_set (if \<not> truthy m0 then JObj [] else m0) ''GeckoLambda'' block = Inr m2"
    and outer: "js_set t1 ''Metadata'' m2 = Inr t2"
    and st': "st' = writeTemplate st dir t2"
    unfolding TemplateManager_updateGeckoMetadata_def ConfigManager_updateGeckoMetadata_def
      bind_def Let_def wrap_def
    by (auto split: sum.splits)
  from rd have "st dir = Some (Doc t0)" by (rule read_Doc)
  with st' install_frame [OF get ensure inner outer] show ?thesis
    by (auto simp: writeTemplate_def)
qed

theorem updateGeckoMetadata_frame_witness:
  "TemplateManager_updateGeckoMetadata ''T1'' sample_store ''/ws/hello''
       ''/src/main.go'' ''/src'' ''sqs''
     = Inr (sample_store(''/ws/hello'' \<mapsto> Doc sample_merged))
   \<and> other_props ''Metadata'' sample_merged = other_props ''Metadata'' sample_template
   \<and> other_props ''GeckoLambda'' (get_prop sample_merged ''Metadata'')
       = [(''Owner'', JStr ''team-a'')]"
proof -
  have run: "TemplateManager_updateGeckoMetadata ''T1'' sample_store ''/ws/hello''
       ''/src/main.go'' ''/src'' ''sqs''
     = Inr (sample_store(''/ws/hello'' \<mapsto> Doc sample_merged))"
    by (simp add: TemplateManager_updateGeckoMetadata_def sample_store_def sample_template_def
          sample_merged_def readTemplate_def writeTemplate_def bind_def js_get_def get_prop_def
          or_js_def assign_def)
  from updateGeckoMetadata_frame [OF disjI1, OF run]
  have "other_props ''Metadata'' sample_merged = other_props ''Metadata'' sample_template
      \<and> other_props ''GeckoLambda'' (get_prop sample_merged ''Metadata'')
          = other_props ''GeckoLambda'' (get_prop sample_template ''Metadata'')"
    by (simp add: sample_store_def)
  moreover have "other_props ''GeckoLambda'' (get_prop sample_template ''Metadata'')
      = [(''Owner'', JStr ''team-a'')]"
    by (simp add: sample_template_def get_prop_def other_props_def)
  ultimately show ?thesis using run by simp
qed

section \<open>Properties of the read-write-read cycle\<close>

lemma valid_shape:
  assumes "isValid (validateGeckoMetadata st dir)"
  shows "\<exists>ts ms gs. st dir = Some (Doc (JObj ts))
           \<and> map_of ts ''Metadata'' = Some (JObj ms)
           \<and> map_of ms ''GeckoLambda'' = Some (JObj gs)
           \<and> truthy (get_prop (JObj gs) ''sourceFile'')
           \<and> truthy (get_prop (JObj gs) ''sourceDir'')
           \<and> truthy (get_prop (JObj gs) ''eventType'')
           \<and> truthy (get_prop (JObj gs) ''version'')"
proof -
  from assms obtain t where rd: "readTemplate st dir = Inr t" and nn: "\<not> nullish t"
    and G: "truthy (opt_get (get_prop t ''Metadata'') ''GeckoLambda'')"
    and fields: "truthy (get_prop (opt_get (get_prop t ''Metadata'') ''GeckoLambda'') ''sourceFile'')"
      "truthy (get_prop (opt_get (get_prop t ''Metadata'') ''GeckoLambda'') ''sourceDir'')"
      "truthy (get_prop (opt_get (get_prop t ''Metadata'') ''GeckoLambda'') ''eventType'')"
      "truthy (get_prop (opt_get (get_prop t ''Metadata'') ''GeckoLambda'') ''version'')"
    by (auto simp: validateGeckoMetadata_def bind_def js_get_def Let_def
             split: sum.splits if_splits)
  define m where "m = get_prop t ''Metadata''"
  define g where "g = get_prop m ''GeckoLambda''"
  from G have mnn: "\<not> nullish m" and g: "opt_get m ''GeckoLambda'' = g"
    by (auto simp: opt_get_def m_def g_def split: if_splits)
  from mnn have "get_prop t ''Metadata'' \<noteq> JUndefined" by (auto simp: m_def)
  then obtain ts where t: "t = JObj ts" and ts: "map_of ts ''Metadata'' = Some m"
    using get_prop_named [of t "''Metadata''"] by (auto simp: m_def)
  from G g have "get_prop m ''GeckoLambda'' \<noteq> JUndefined" by (auto simp: g_def m_def)
  then obtain ms where m: "m = JObj ms" and ms: "map_of ms ''GeckoLambda'' = Some g"
    using get_prop_named [of m "''GeckoLambda''"] by (auto simp: g_def)
  from fields(1) g have "get_prop g ''sourceFile'' \<noteq> JUndefined" by (auto simp: m_def)
  then obtain gs where gs: "g = JObj gs"
    using get_prop_named [of g "''sourceFile''"] by auto
  from rd t have "st dir = Some (Doc (JObj ts))" by (simp add: read_Doc)
  with ts m ms gs fields g show ?thesis by (auto simp: m_def)
qed


lemma extract_from_cong:
  assumes "get_prop t' ''Resources'' = get_prop t ''Resources''"
    and "get_prop t' ''Globals'' = get_prop t ''Globals''"
    and "get_prop t' ''Description'' = get_prop t ''Description''"
    and "opt_get g' ''functionName'' = opt_get g ''functionName''"
    and "opt_get g' ''eventType'' = opt_get g ''eventType''"
    and "opt_get g' ''sourceFile'' = opt_get g ''sourceFile''"
    and "opt_get g' ''sourceDir'' = opt_get g ''sourceDir''"
    and "opt_get g' ''environmentInfo'' = opt_get g ''environmentInfo''"
    and "opt_get g' ''runtime'' = opt_get g ''runtime''"
    and "opt_get g' ''architecture'' = opt_get g ''architecture''"
    and "opt_get g' ''buildMethod'' = opt_get g ''buildMethod''"
    and "extract_from now dir fb t g = Inr c"
  shows "extract_from now' dir fb t' g'
           = Inr (c\<lparr>lastModified := or_js (opt_get g' ''lastModified'') (JStr now')\<rparr>)"
  using assms(12) unfolding extract_from_def assms(1-11) Let_def bind_def
  by (auto split: sum.splits option.splits if_splits)

lemma merge_cycle:
  assumes ex: "extractConfigFromTemplate now0 st dir fb = Inr c1"
    and valid: "isValid (validateGeckoMetadata st dir)"
    and sf: "sourceMainFile c1 = JStr sf" and sd: "sourceDir c1 = JStr sd"
    and et: "eventType c1 = JStr et"
  shows "\<exists>st' c2. TemplateManager_updateGeckoMetadata now1 st dir sf sd et = Inr st'
           \<and> extractConfigFromTemplate now2 st' dir fb = Inr c2
           \<and> c2 = c1\<lparr>lastModified := lastModified c2\<rparr>"
proof -
  from valid_shape [OF valid] obtain ts ms gs where
    st: "st dir = Some (Doc (JObj ts))"
    and ts: "map_of ts ''Metadata'' = Some (JObj ms)"
    and ms: "map_of ms ''GeckoLambda'' = Some (JObj gs)"
    and f1: "truthy (get_prop (JObj gs) ''sourceFile'')"
    and f2: "truthy (get_prop (JObj gs) ''sourceDir'')"
    and f3: "truthy (get_prop (JObj gs) ''eventType'')"
    by blast
  define block where "block = JObj (assign gs
                     [(''sourceFile'', JStr sf), (''sourceDir'', JStr sd),
                      (''eventType'', JStr et), (''lastModified'', JStr now1),
                      (''version'', JStr ''2.0'')])"
  define t2 where "t2 = JObj (AList.update ''Metadata''
                          (JObj (AList.update ''GeckoLambda'' block ms)) ts)"
  have upd: "TemplateManager_updateGeckoMetadata now1 st dir sf sd et
               = Inr (writeTemplate st dir t2)"
    using st ts ms
    by (simp add: TemplateManager_updateGeckoMetadata_def readTemplate_def bind_def js_get_def
          get_prop_def or_js_def t2_def block_def)
  from ex st ts ms have ex': "extract_from now0 dir fb (JObj ts) (JObj gs) = Inr c1"
    by (simp add: extractConfigFromTemplate_def readTemplate_def bind_def js_get_def
          get_prop_def opt_get_def)
  from ex' f1 f2 f3 sf sd et
  have old: "get_prop (JObj gs) ''sourceFile'' = JStr sf"
    "get_prop (JObj gs) ''sourceDir'' = JStr sd"
    "get_prop (JObj gs) ''eventType'' = JStr et"
    by (auto simp: extract_from_def Let_def bind_def opt_get_def or_js_def
             split: sum.splits option.splits)
  have rd2: "readTemplate (writeTemplate st dir t2) dir = Inr t2"
    by (simp add: readTemplate_def writeTemplate_def)
  have md2: "js_get t2 ''Metadata'' = Inr (JObj (AList.update ''GeckoLambda'' block ms))"
    by (simp add: t2_def js_get_def get_prop_def update_conv')
  have gl2: "opt_get (JObj (AList.update ''GeckoLambda'' block ms)) ''GeckoLambda'' = block"
    by (simp add: opt_get_def get_prop_def update_conv')
  have top: "get_prop t2 ''Resources'' = get_prop (JObj ts) ''Resources''"
    "get_prop t2 ''Globals'' = get_prop (JObj ts) ''Globals''"
    "get_prop t2 ''Description'' = get_prop (JObj ts) ''Description''"
    by (simp_all add: t2_def get_prop_def update_conv')
  have kept: "opt_get block ''functionName'' = opt_get (JObj gs) ''functionName''"
    "opt_get block ''environmentInfo'' = opt_get (JObj gs) ''environmentInfo''"
    "opt_get block ''runtime'' = opt_get (JObj gs) ''runtime''"
    "opt_get block ''architecture'' = opt_get (JObj gs) ''architecture''"
    "opt_get block ''buildMethod'' = opt_get (JObj gs) ''buildMethod''"
    by (simp_all add: block_def assign_def opt_get_def get_prop_def update_conv')
  have same: "opt_get block ''eventType'' = opt_get (JObj gs) ''eventType''"
    "opt_get block ''sourceFile'' = opt_get (JObj gs) ''sourceFile''"
    "opt_get block ''sourceDir'' = opt_get (JObj gs) ''sourceDir''"
    using old by (simp_all add: block_def assign_def opt_get_def get_prop_def update_conv')
  have "extract_from now2 dir fb t2 block
          = Inr (c1\<lparr>lastModified := or_js (opt_get block ''lastModified'') (JStr now2)\<rparr>)"
    by (rule extract_from_cong [OF top kept(1) same kept(2-5) ex'])
  with rd2 md2 gl2
  have "extractConfigFromTemplate now2 (writeTemplate st dir t2) dir fb
          = Inr (c1\<lparr>lastModified := or_js (opt_get block ''lastModified'') (JStr now2)\<rparr>)"
    by (simp add: extractConfigFromTemplate_def bind_def)
  with upd show ?thesis by simp
qed
lemma extract_from_replaced:
  assumes "get_prop t' ''Resources'' = get_prop t ''Resources''"
    and "get_prop t' ''Globals'' = get_prop t ''Globals''"
    and "get_prop t' ''Description'' = get_prop t ''Description''"
    and "opt_get g' ''eventType'' = opt_get g ''eventType''"
    and "extract_from now dir fb t g = Inr c"
  shows "\<exists>c'. extract_from now' dir fb t' g' = Inr c'
           \<and> eventType c' = eventType c
           \<and> workspacePath c' = workspacePath c
           \<and> variables (environment c') = variables (environment c)
           \<and> template c' = template c
           \<and> sourceMainFile c' = or_js (opt_get g' ''sourceFile'')
                 (or_js (opt_get fb ''sourceMainFile'') (JStr ''''))
           \<and> sourceDir c' = or_js (opt_get g' ''sourceDir'')
                 (or_js (opt_get fb ''sourceDir'') (JStr ''''))
           \<and> buildMethod c' = or_js (opt_get g' ''buildMethod'') (JStr ''direct'')
           \<and> lastUpdated (environment c') = get_prop (or_js (opt_get g' ''environmentInfo'')
                 (JObj [(''lastUpdated'', JStr ''''), (''source'', JStr ''manual'')])) ''lastUpdated''
           \<and> source (environment c') = get_prop (or_js (opt_get g' ''environmentInfo'')
                 (JObj [(''lastUpdated'', JStr ''''), (''source'', JStr ''manual'')])) ''source''
           \<and> awsFunctionName (environment c') = get_prop (or_js (opt_get g' ''environmentInfo'')
                 (JObj [(''lastUpdated'', JStr ''''), (''source'', JStr ''manual'')])) ''awsFunctionName''"
  using assms(5) unfolding extract_from_def assms(1-4) Let_def bind_def
  by (auto split: sum.splits option.splits if_splits)

lemma replace_cycle:
  assumes ex: "extractConfigFromTemplate now0 st dir fb = Inr c1"
    and valid: "isValid (validateGeckoMetadata st dir)"
    and sf: "sourceMainFile c1 = JStr sf" and sd: "sourceDir c1 = JStr sd"
    and et: "eventType c1 = JStr et"
  shows "\<exists>st' c2. ConfigManager_updateGeckoMetadata now1 st dir sf sd et = Inr st'
           \<and> extractConfigFromTemplate now2 st' dir fb = Inr c2
           \<and> sourceMainFile c2 = sourceMainFile c1
           \<and> sourceDir c2 = sourceDir c1
           \<and> eventType c2 = eventType c1
           \<and> workspacePath c2 = workspacePath c1
           \<and> variables (environment c2) = variables (environment c1)
           \<and> template c2 = template c1
           \<and> buildMethod c2 = JStr ''direct''
           \<and> lastUpdated (environment c2) = JStr ''''
           \<and> source (environment c2) = JStr ''manual''
           \<and> awsFunctionName (environment c2) = JUndefined"
proof -
  from valid_shape [OF valid] obtain ts ms gs where
    st: "st dir = Some (Doc (JObj ts))"
    and ts: "map_of ts ''Metadata'' = Some (JObj ms)"
    and ms: "map_of ms ''GeckoLambda'' = Some (JObj gs)"
    and f1: "truthy (get_prop (JObj gs) ''sourceFile'')"
    and f2: "truthy (get_prop (JObj gs) ''sourceDir'')"
    and f3: "truthy (get_prop (JObj gs) ''eventType'')"
    by blast
  define block where "block = JObj
                     [(''sourceFile'', JStr sf), (''sourceDir'', JStr sd),
                      (''eventType'', JStr et), (''lastModified'', JStr now1),
                      (''version'', JStr ''2.0'')]"
  define t2 where "t2 = JObj (AList.update ''Metadata''
                          (JObj (AList.update ''GeckoLambda'' block ms)) ts)"
  have upd: "ConfigManager_updateGeckoMetadata now1 st dir sf sd et
               = Inr (writeTemplate st dir t2)"
    using st ts ms
    by (simp add: ConfigManager_updateGeckoMetadata_def readTemplate_def bind_def js_get_def
          get_prop_def wrap_def t2_def block_def)
  from ex st ts ms have ex': "extract_from now0 dir fb (JObj ts) (JObj gs) = Inr c1"
    by (simp add: extractConfigFromTemplate_def readTemplate_def bind_def js_get_def
          get_prop_def opt_get_def)
  from ex' f1 f2 f3 sf sd et
  have old: "get_prop (JObj gs) ''sourceFile'' = JStr sf"
    "get_prop (JObj gs) ''sourceDir'' = JStr sd"
    "get_prop (JObj gs) ''eventType'' = JStr et"
    by (auto simp: extract_from_def Let_def bind_def opt_get_def or_js_def
             split: sum.splits option.splits)
  with f1 f2 have ne: "sf \<noteq> []" "sd \<noteq> []" by auto
  have rd2: "readTemplate (writeTemplate st dir t2) dir = Inr t2"
    by (simp add: readTemplate_def writeTemplate_def)
  have md2: "js_get t2 ''Metadata'' = Inr (JObj (AList.update ''GeckoLambda'' block ms))"
    by (simp add: t2_def js_get_def get_prop_def update_conv')
  have gl2: "opt_get (JObj (AList.update ''GeckoLambda'' block ms)) ''GeckoLambda'' = block"
    by (simp add: opt_get_def get_prop_def update_conv')
  have top: "get_prop t2 ''Resources'' = get_prop (JObj ts) ''Resources''"
    "get_prop t2 ''Globals'' = get_prop (JObj ts) ''Globals''"
    "get_prop t2 ''Description'' = get_prop (JObj ts) ''Description''"
    by (simp_all add: t2_def get_prop_def update_conv')
  have same: "opt_get block ''eventType'' = opt_get (JObj gs) ''eventType''"
    using old by (simp add: block_def opt_get_def get_prop_def)
  have new: "opt_get block ''sourceFile'' = JStr sf" "opt_get block ''sourceDir'' = JStr sd"
    "opt_get block ''buildMethod'' = JUndefined"
    "opt_get block ''environmentInfo'' = JUndefined"
    by (simp_all add: block_def opt_get_def get_prop_def)
  from extract_from_replaced [OF top same ex', where now' = now2]
  obtain c2 where c2: "extract_from now2 dir fb t2 block = Inr c2"
    and keep: "eventType c2 = eventType c1" "workspacePath c2 = workspacePath c1"
      "variables (environment c2) = variables (environment c1)" "template c2 = template c1"
    and derived: "sourceMainFile c2 = JStr sf" "sourceDir c2 = JStr sd"
      "buildMethod c2 = JStr ''direct''" "lastUpdated (environment c2) = JStr ''''"
      "source (environment c2) = JStr ''manual''" "awsFunctionName (environment c2) = JUndefined"
    using ne by (auto simp: new or_js_def get_prop_def)
  from c2 rd2 md2 gl2
  have "extractConfigFromTemplate now2 (writeTemplate st dir t2) dir fb = Inr c2"
    by (simp add: extractConfigFromTemplate_def bind_def)
  with upd keep derived sf sd show ?thesis by simp
qed

text \<open>
  Claim C2, as amended. Take a manifest that parses, has a function resource, and whose
  private metadata is complete, with the source file, source directory and event type
  of the extracted configuration being strings. Writing these three back with
  \<^verbatim>\<open>TemplateManager.updateGeckoMetadata\<close>, which merges into the existing block, and
  extracting again gives the first configuration but for \<^verbatim>\<open>lastModified\<close>. Writing
  them back with \<^verbatim>\<open>ConfigManager.updateGeckoMetadata\<close>, which replaces the block by
  the five fields it writes, keeps the source file, source directory, event type,
  workspace path, environment variables and template settings; the build method and
  the environment provenance are then the defaults.
\<close>

theorem read_write_read:
  assumes "extractConfigFromTemplate now0 st dir fb = Inr c1"
    and "isValid (validateGeckoMetadata st dir)"
    and "sourceMainFile c1 = JStr sf" and "sourceDir c1 = JStr sd"
    and "eventType c1 = JStr et"
  shows "(\<exists>st' c2. TemplateManager_updateGeckoMetadata now1 st dir sf sd et = Inr st'
           \<and> extractConfigFromTemplate now2 st' dir fb = Inr c2
           \<and> c2 = c1\<lparr>lastModified := lastModified c2\<rparr>)
       \<and> (\<exists>st' c2. ConfigManager_updateGeckoMetadata now1 st dir sf sd et = Inr st'
           \<and> extractConfigFromTemplate now2 st' dir fb = Inr c2
           \<and> sourceMainFile c2 = sourceMainFile c1
           \<and> sourceDir c2 = sourceDir c1
           \<and> eventType c2 = eventType c1
           \<and> workspacePath c2 = workspacePath c1
           \<and> variables (environment c2) = variables (environment c1)
           \<and> template c2 = template c1
           \<and> buildMethod c2 = JStr ''direct''
           \<and> lastUpdated (environment c2) = JStr ''''
           \<and> source (environment c2) = JStr ''manual''
           \<and> awsFunctionName (environment c2) = JUndefined)"
  using merge_cycle [OF assms] replace_cycle [OF assms] by (rule conjI)

lemma complete_extract:
  "extractConfigFromTemplate ''T0'' complete_store ''/ws/hello'' JUndefined = Inr complete_config"
  by (simp add: eval_defs complete_store_def complete_template_def complete_config_def)

lemma complete_valid: "isValid (validateGeckoMetadata complete_store ''/ws/hello'')"
  by (simp add: eval_defs complete_store_def complete_template_def)

theorem read_write_read_witness:
  "extractConfigFromTemplate ''T0'' complete_store ''/ws/hello'' JUndefined = Inr complete_config
   \<and> isValid (validateGeckoMetadata complete_store ''/ws/hello'')
   \<and> (\<exists>st' c2. TemplateManager_updateGeckoMetadata ''T1'' complete_store ''/ws/hello''
                    ''/src/main.go'' ''/src'' ''sqs'' = Inr st'
           \<and> extractConfigFromTemplate ''T2'' st' ''/ws/hello'' JUndefined = Inr c2
           \<and> c2 = complete_config\<lparr>lastModified := lastModified c2\<rparr>)"
  using read_write_read [OF complete_extract complete_valid, of "''/src/main.go''" "''/src''"
          "''sqs''" "''T1''" "''T2''"]
        complete_extract complete_valid
  by (simp add: complete_config_def)

text \<open>
  Claim C2 as stated fails for \<^verbatim>\<open>ConfigManager.updateGeckoMetadata\<close>, the writer it
  names: on the complete manifest above the second extraction has lost the
  environment provenance (\<^verbatim>\<open>source\<close>, \<^verbatim>\<open>awsFunctionName\<close>, \<^verbatim>\<open>lastUpdated\<close>).
\<close>

theorem replace_loses_provenance:
  "isValid (validateGeckoMetadata complete_store ''/ws/hello'')
   \<and> extractConfigFromTemplate ''T0'' complete_store ''/ws/hello'' JUndefined
       = Inr complete_config
   \<and> ConfigManager_updateGeckoMetadata ''T1'' complete_store ''/ws/hello''
         ''/src/main.go'' ''/src'' ''sqs''
       = Inr (complete_store(''/ws/hello'' \<mapsto> Doc replaced_template))
   \<and> extractConfigFromTemplate ''T2'' (complete_store(''/ws/hello'' \<mapsto> Doc replaced_template))
         ''/ws/hello'' JUndefined
       = Inr replaced_config
   \<and> source (environment complete_config) = JStr ''aws''
   \<and> source (environment replaced_config) = JStr ''manual''
   \<and> awsFunctionName (environment complete_config) = JStr ''prod-hello''
   \<and> awsFunctionName (environment replaced_config) = JUndefined"
  by (simp add: eval_defs complete_store_def complete_template_def complete_config_def
        replaced_template_def replaced_config_def ConfigManager_updateGeckoMetadata_def wrap_def)


section \<open>Properties of validation and repair\<close>






section \<open>Properties of the workspace scans\<close>

lemma read_metadata_private:
  "st (path_join ws d) \<noteq> None \<Longrightarrow>
     (case read_metadata st (path_join ws d) of Inl e \<Rightarrow> JUndefined | Inr md \<Rightarrow> md)
       = private_metadata st ws d"
  by (auto simp: read_metadata_def private_metadata_def readTemplate_def bind_def js_get_def
        get_prop_nullish opt_get_def split: option.splits manifest_file.splits)

lemma private_metadata_None: "st (path_join ws d) = None \<Longrightarrow> private_metadata st ws d = JUndefined"
  by (simp add: private_metadata_def)

lemma getConfiguration_loop_step:
  "getConfiguration_loop now st ws sf (d # ds) =
     (if claims st ws sf d then Some (found_config now st ws sf d)
      else getConfiguration_loop now st ws sf ds)"
proof (cases "st (path_join ws d) = None")
  case True
  then show ?thesis
    by (simp add: claims_def has_private_metadata_def private_metadata_None)
next
  case False
  note pm = read_metadata_private [of st ws d, OF False]
  show ?thesis
  proof (cases "read_metadata st (path_join ws d)")
    case (Inl e)
    with pm have "private_metadata st ws d = JUndefined" by simp
    with Inl False show ?thesis
      by (simp add: claims_def has_private_metadata_def)
  next
    case (Inr md)
    with pm have "private_metadata st ws d = md" by simp
    with Inr False show ?thesis
      by (simp add: claims_def has_private_metadata_def found_config_def)
  qed
qed

lemma getConfiguration_loop_find:
  "getConfiguration_loop now st ws sf ds
     = map_option (found_config now st ws sf) (find (claims st ws sf) ds)"
  by (induction ds) (simp_all add: getConfiguration_loop_step del: getConfiguration_loop.simps(2))

lemma getAllLambdaFunctions_loop_step:
  "getAllLambdaFunctions_loop now st ws (d # ds) =
     (if has_private_metadata st ws d
      then listed_config now st ws d # getAllLambdaFunctions_loop now st ws ds
      else getAllLambdaFunctions_loop now st ws ds)"
proof (cases "st (path_join ws d) = None")
  case True
  then show ?thesis
    by (simp add: has_private_metadata_def private_metadata_None)
next
  case False
  note pm = read_metadata_private [of st ws d, OF False]
  show ?thesis
  proof (cases "read_metadata st (path_join ws d)")
    case (Inl e)
    with pm have "private_metadata st ws d = JUndefined" by simp
    with Inl False show ?thesis
      by (simp add: has_private_metadata_def)
  next
    case (Inr md)
    with pm have "private_metadata st ws d = md" by simp
    with Inr False show ?thesis
      by (simp add: has_private_metadata_def listed_config_def)
  qed
qed

lemma getAllLambdaFunctions_loop_filter:
  "getAllLambdaFunctions_loop now st ws ds
     = map (listed_config now st ws) (filter (has_private_metadata st ws) ds)"
  by (induction ds)
     (simp_all add: getAllLambdaFunctions_loop_step del: getAllLambdaFunctions_loop.simps(2))

lemma find_unique:
  "d \<in> set ds \<Longrightarrow> P d \<Longrightarrow> (\<forall>d' \<in> set ds. P d' \<longrightarrow> d' = d) \<Longrightarrow> find P ds = Some d"
proof (induction ds)
  case Nil
  then show ?case by simp
next
  case (Cons x xs)
  show ?case
  proof (cases "P x")
    case True
    with Cons.prems(3) have "x = d" by simp
    with True show ?thesis by simp
  next
    case False
    with Cons.prems(1,2) have "d \<in> set xs" by auto
    moreover from Cons.prems(3) have "\<forall>d' \<in> set xs. P d' \<longrightarrow> d' = d" by simp
    ultimately have "find P xs = Some d" using Cons.IH Cons.prems(2) by blast
    with False show ?thesis by simp
  qed
qed

text \<open>
  Claim C6. \<^verbatim>\<open>getConfiguration\<close> answers with the first subdirectory of the workspace,
  in listing order, whose manifest parses and has private metadata with \<^verbatim>\<open>sourceFile\<close>
  equal to the queried path as a string; the configuration carries the directory name
  and the queried path. It answers \<open>None\<close> when no subdirectory claims the path, when
  the workspace is missing, and when it cannot be listed. When exactly one subdirectory
  claims the path, the answer is the configuration of that one.
\<close>

theorem getConfiguration_first_claim:
  "getConfiguration now (Some (Inr dirents)) st ws sf
     = map_option (found_config now st ws sf)
         (find (claims st ws sf) (map fst (filter snd dirents)))
   \<and> ((\<forall>d \<in> set (map fst (filter snd dirents)). \<not> claims st ws sf d)
        \<longrightarrow> getConfiguration now (Some (Inr dirents)) st ws sf = None)
   \<and> (d \<in> set (map fst (filter snd dirents)) \<and> claims st ws sf d
        \<and> (\<forall>d' \<in> set (map fst (filter snd dirents)). claims st ws sf d' \<longrightarrow> d' = d)
        \<longrightarrow> getConfiguration now (Some (Inr dirents)) st ws sf
              = Some (found_config now st ws sf d))
   \<and> (getConfiguration now (Some (Inr dirents)) st ws sf = Some c
        \<longrightarrow> claims st ws sf (LambdaConfig.functionName c)
            \<and> LambdaConfig.sourceFile c = JStr sf)
   \<and> getConfiguration now None st ws sf = None
   \<and> getConfiguration now (Some (Inl e)) st ws sf = None"
proof -
  let ?ds = "map fst (filter snd dirents)"
  have main: "getConfiguration now (Some (Inr dirents)) st ws sf
     = map_option (found_config now st ws sf) (find (claims st ws sf) ?ds)"
    by (simp add: getConfiguration_def getConfiguration_loop_find)
  have none: "(\<forall>d \<in> set ?ds. \<not> claims st ws sf d)
        \<longrightarrow> getConfiguration now (Some (Inr dirents)) st ws sf = None"
    unfolding main by (auto simp: find_None_iff)
  have one: "d \<in> set ?ds \<and> claims st ws sf d
        \<and> (\<forall>d' \<in> set ?ds. claims st ws sf d' \<longrightarrow> d' = d)
        \<longrightarrow> getConfiguration now (Some (Inr dirents)) st ws sf
              = Some (found_config now st ws sf d)"
    unfolding main using find_unique [of d ?ds "claims st ws sf"] by auto
  have sound: "getConfiguration now (Some (Inr dirents)) st ws sf = Some c
        \<longrightarrow> claims st ws sf (LambdaConfig.functionName c)
            \<and> LambdaConfig.sourceFile c = JStr sf"
    unfolding main by (auto simp: find_Some_iff found_config_def)
  have rest: "getConfiguration now None st ws sf = None"
    "getConfiguration now (Some (Inl e)) st ws sf = None"
    by (simp_all add: getConfiguration_def)
  show ?thesis by (intro conjI main none one sound rest)
qed


theorem getConfiguration_first_claim_witness:
  "getConfiguration ''T9'' ws_listing ws_store ''/ws'' ''/src/orders/main.go''
     = Some orders_config
   \<and> getConfiguration ''T9'' ws_listing ws_store ''/ws'' ''/src/other/main.go'' = None"
  using getConfiguration_first_claim [of "''T9''"
          "[(''README.md'', False), (''broken'', True), (''empty'', True),
            (''legacy'', True), (''notes'', True), (''orders'', True)]"
          ws_store "''/ws''" "''/src/orders/main.go''" "''orders''" orders_config TypeError]
        getConfiguration_first_claim [of "''T9''"
          "[(''README.md'', False), (''broken'', True), (''empty'', True),
            (''legacy'', True), (''notes'', True), (''orders'', True)]"
          ws_store "''/ws''" "''/src/other/main.go''" "''orders''" orders_config TypeError]
  by (simp add: ws_listing_def ws_store_def orders_config_def claims_def found_config_def
        has_private_metadata_def private_metadata_def path_join_def opt_get_def get_prop_def
        or_js_def getConfiguration_def read_metadata_def readTemplate_def bind_def js_get_def
        path_dirname_def)

text \<open>
  Claim C8. \<^verbatim>\<open>getAllLambdaFunctions\<close> answers with one configuration for each
  subdirectory whose manifest parses and has private metadata, in listing order, named
  after the directory. A subdirectory whose manifest has no private metadata adds
  nothing, and one whose manifest does not parse adds nothing and does not stop the
  scan: the result is that of the entries before it followed by that of the entries
  after it.
\<close>

theorem getAllLambdaFunctions_collects:
  "getAllLambdaFunctions now (Some (Inr dirents)) st ws
     = map (listed_config now st ws)
         (filter (has_private_metadata st ws) (map fst (filter snd dirents)))
   \<and> map LambdaConfig.functionName (getAllLambdaFunctions now (Some (Inr dirents)) st ws)
       = filter (has_private_metadata st ws) (map fst (filter snd dirents))
   \<and> (st (path_join ws bad) = Some Unparseable \<longrightarrow>
        getAllLambdaFunctions now (Some (Inr (before @ (bad, True) # after))) st ws
          = getAllLambdaFunctions now (Some (Inr before)) st ws
            @ getAllLambdaFunctions now (Some (Inr after)) st ws)
   \<and> (\<not> has_private_metadata st ws d \<longrightarrow>
        getAllLambdaFunctions now (Some (Inr (before @ (d, True) # after))) st ws
          = getAllLambdaFunctions now (Some (Inr before)) st ws
            @ getAllLambdaFunctions now (Some (Inr after)) st ws)"
proof -
  have main: "\<And>ds. getAllLambdaFunctions now (Some (Inr ds)) st ws
     = map (listed_config now st ws)
         (filter (has_private_metadata st ws) (map fst (filter snd ds)))"
    by (simp add: getAllLambdaFunctions_def getAllLambdaFunctions_loop_filter)
  have names: "map LambdaConfig.functionName (getAllLambdaFunctions now (Some (Inr dirents)) st ws)
       = filter (has_private_metadata st ws) (map fst (filter snd dirents))"
    unfolding main by (simp add: listed_config_def comp_def)
  have bad: "st (path_join ws bad) = Some Unparseable \<longrightarrow> \<not> has_private_metadata st ws bad"
    by (simp add: has_private_metadata_def private_metadata_def)
  have skip: "\<And>x. \<not> has_private_metadata st ws x \<longrightarrow>
        getAllLambdaFunctions now (Some (Inr (before @ (x, True) # after))) st ws
          = getAllLambdaFunctions now (Some (Inr before)) st ws
            @ getAllLambdaFunctions now (Some (Inr after)) st ws"
    unfolding main by simp
  have unparseable: "st (path_join ws bad) = Some Unparseable \<longrightarrow>
        getAllLambdaFunctions now (Some (Inr (before @ (bad, True) # after))) st ws
          = getAllLambdaFunctions now (Some (Inr before)) st ws
            @ getAllLambdaFunctions now (Some (Inr after)) st ws"
  proof
    assume u: "st (path_join ws bad) = Some Unparseable"
    from bad u have n: "\<not> has_private_metadata st ws bad" by (rule mp)
    from skip [of bad] n
    show "getAllLambdaFunctions now (Some (Inr (before @ (bad, True) # after))) st ws
          = getAllLambdaFunctions now (Some (Inr before)) st ws
            @ getAllLambdaFunctions now (Some (Inr after)) st ws" by (rule mp)
  qed
  show ?thesis by (intro conjI main names unparseable skip)
qed

theorem getAllLambdaFunctions_collects_witness:
  "getAllLambdaFunctions ''T9'' ws_listing ws_store ''/ws'' = [orders_config]
   \<and> getAllLambdaFunctions ''T9'' ws_listing ws_store ''/ws''
       = getAllLambdaFunctions ''T9'' (Some (Inr [(''README.md'', False)])) ws_store ''/ws''
         @ getAllLambdaFunctions ''T9''
             (Some (Inr [(''empty'', True), (''legacy'', True), (''notes'', True),
                         (''orders'', True)])) ws_store ''/ws''"
  using getAllLambdaFunctions_collects [of "''T9''"
          "[(''README.md'', False), (''broken'', True), (''empty'', True),
            (''legacy'', True), (''notes'', True), (''orders'', True)]"
          ws_store "''/ws''" "''broken''" "[(''README.md'', False)]"
          "[(''empty'', True), (''legacy'', True), (''notes'', True), (''orders'', True)]"
          "''broken''"]
  by (simp add: ws_listing_def ws_store_def orders_config_def listed_config_def
        has_private_metadata_def private_metadata_def path_join_def opt_get_def get_prop_def
        or_js_def getAllLambdaFunctions_def read_metadata_def readTemplate_def bind_def
        js_get_def)

section \<open>Properties of the function name\<close>

lemma join_words_length: "length (join_words s) \<le> length s"
  by (induction s rule: join_words.induct) auto

lemma join_words_joint: "has_joint s \<Longrightarrow> length (join_words s) < length s"
proof (induction s rule: join_words.induct)
  case (1 c d cs)
  show ?case
  proof (cases "is_sep c \<and> is_word d")
    case True
    with join_words_length [of cs] show ?thesis by simp
  next
    case False
    with 1 show ?thesis by auto
  qed
qed simp_all

lemma join_words_plain: "\<not> has_joint s \<Longrightarrow> join_words s = s"
  by (induction s rule: join_words.induct) auto

lemma toLowerCase_upper_char: "toLowerCase (upper_char c # cs) = toLowerCase (c # cs)"
  by (auto simp: toLowerCase_def upper_char_def split: option.splits if_splits)

lemma toPascalCase_plain: "\<not> has_joint s \<Longrightarrow> toLowerCase (toPascalCase s) = toLowerCase s"
  by (simp add: toPascalCase_def join_words_plain toLowerCase_upper_char split: list.splits)

lemma join_words_nonempty: "s \<noteq> [] \<Longrightarrow> join_words s \<noteq> []"
  by (induction s rule: join_words.induct) auto

lemma toPascalCase_length: "length (toPascalCase s) = length (join_words s)"
  by (simp add: toPascalCase_def split: list.splits)

lemma toLowerCase_length: "length (toLowerCase s) = length s"
  by (simp add: toLowerCase_def)

lemma strip_Function_append: "strip_Function (x @ ''Function'') = x"
  by (simp add: strip_Function_def)

lemma truthy_key_Some: "truthy_key found = Some key \<longleftrightarrow> found = Some key \<and> key \<noteq> []"
  by (auto simp: truthy_key_def split: option.splits)

lemma getEventConfiguration_None:
  "getEventConfiguration ev = None \<longleftrightarrow> js_to_string ev \<in> set object_prototype_functions"
  by (simp add: getEventConfiguration_def Let_def)

lemma created_name:
  assumes "functionName config = JStr name" and "name \<noteq> []"
    and "js_to_string (eventType config) \<notin> set object_prototype_functions"
  shows "\<exists>t c. createTemplate now st dir config = Inr (st(dir \<mapsto> Doc t))
           \<and> get_prop (opt_get (get_prop t ''Metadata'') ''GeckoLambda'') ''functionName''
               = JUndefined
           \<and> get_prop (get_prop t ''Resources'') (toPascalCase name @ ''Function'')
               \<noteq> JUndefined
           \<and> extractConfigFromTemplate now' (st(dir \<mapsto> Doc t)) dir fb = Inr c
           \<and> functionName c = JStr (toLowerCase (toPascalCase name))
           \<and> (has_joint name
                \<longrightarrow> length (toLowerCase (toPascalCase name)) < length name
                  \<and> functionName c \<noteq> JStr name
                  \<and> (path_basename dir = name \<longrightarrow> functionName c \<noteq> JStr (path_basename dir)))
           \<and> (\<not> has_joint name \<longrightarrow> functionName c = JStr (toLowerCase name))"
proof -
  define fn where "fn = toPascalCase name"
  from assms(2) have "length fn \<noteq> 0"
    using join_words_nonempty [of name] by (simp add: fn_def toPascalCase_length)
  then have low: "toLowerCase fn \<noteq> []" and fn: "fn \<noteq> []"
    using toLowerCase_length [of fn] by auto
  have ev: "truthy (or_js (eventType config) (JStr ''apigateway''))"
    by (simp add: truthy_or_js)
  from assms(3) obtain ec where ec: "getEventConfiguration (eventType config) = Some ec"
    using getEventConfiguration_None [of "eventType config"] by (cases "getEventConfiguration (eventType config)") auto
  obtain t where cr: "createTemplate now st dir config = Inr (st(dir \<mapsto> Doc t))"
    and md: "get_prop t ''Metadata'' = JObj [(''GeckoLambda'',
                         JObj [(''sourceFile'', or_js (sourceMainFile config) (JStr '''')),
                               (''sourceDir'', or_js (sourceDir config) (JStr '''')),
                               (''eventType'', or_js (eventType config) (JStr ''apigateway'')),
                               (''lastModified'', JStr now),
                               (''version'', JStr ''2.0''),
                               (''buildMethod'', or_js (buildMethod config) (JStr ''direct'')),
                               (''architecture'', or_js (architecture config) (JStr ''arm64'')),
                               (''runtime'',
                                  or_js (runtime config) (JStr ''provided.al2023''))])]"
    and rs: "\<exists>ps. get_prop t ''Resources'' = JObj [(fn @ ''Function'',
                         JObj ((''Type'', JStr ''AWS::Serverless::Function'') # ps))]"
    and nn: "\<not> nullish t"
    using assms(1) ec
    by (simp add: createTemplate_def Let_def writeTemplate_def get_prop_def fn_def)
  from rs obtain ps where rs': "get_prop t ''Resources'' = JObj [(fn @ ''Function'',
                         JObj ((''Type'', JStr ''AWS::Serverless::Function'') # ps))]"
    by blast
  have "\<exists>c. extract_from now' dir fb t (opt_get (get_prop t ''Metadata'') ''GeckoLambda'') = Inr c
          \<and> functionName c = JStr (toLowerCase fn)"
    using ev low
    by (simp add: extract_from_def md rs' Let_def bind_def object_keys_def js_get_def
          get_prop_JObj opt_get_JObj strip_Function_append or_js_def truthy_key_def)
  then obtain c where c: "extractConfigFromTemplate now' (st(dir \<mapsto> Doc t)) dir fb = Inr c"
    and name: "functionName c = JStr (toLowerCase fn)"
    using nn by (auto simp: extractConfigFromTemplate_def readTemplate_def bind_def js_get_def)
  have short: "has_joint name \<Longrightarrow> length (toLowerCase fn) < length name"
    by (simp add: fn_def toLowerCase_length toPascalCase_length join_words_joint)
  have joint: "has_joint name
                \<longrightarrow> length (toLowerCase fn) < length name
                  \<and> functionName c \<noteq> JStr name
                  \<and> (path_basename dir = name \<longrightarrow> functionName c \<noteq> JStr (path_basename dir))"
    using short name by auto
  have plain: "\<not> has_joint name \<longrightarrow> functionName c = JStr (toLowerCase name)"
    using name by (simp add: fn_def toPascalCase_plain)
  have m: "get_prop (opt_get (get_prop t ''Metadata'') ''GeckoLambda'') ''functionName''
             = JUndefined"
    by (simp add: md get_prop_JObj opt_get_JObj)
  have r: "get_prop (get_prop t ''Resources'') (fn @ ''Function'') \<noteq> JUndefined"
    by (simp add: rs' get_prop_JObj)
  show ?thesis
    by (intro exI [of _ t] exI [of _ c] conjI cr m r [unfolded fn_def] c name [unfolded fn_def]
          joint [unfolded fn_def] plain)
qed

lemma inherited_event_type:
  assumes "functionName config = JStr name"
    and "js_to_string (eventType config) \<in> set object_prototype_functions"
  shows "createTemplate now st dir config = Inl DumpFailure"
  using assms getEventConfiguration_None [of "eventType config"]
  by (simp add: createTemplate_def)

lemma derived_name:
  assumes "extractConfigFromTemplate now st dir fb = Inr c" and "st dir = Some (Doc t)"
    and "\<not> truthy (opt_get (opt_get (get_prop t ''Metadata'') ''GeckoLambda'') ''functionName'')"
  shows "\<exists>key. find_function_key (or_js (get_prop t ''Resources'') (JObj []))
                  (map fst (own_props (or_js (get_prop t ''Resources'') (JObj []))))
                = Inr (Some key)
           \<and> key \<noteq> []
           \<and> functionName c =
               (if toLowerCase (strip_Function key) \<noteq> []
                then JStr (toLowerCase (strip_Function key))
                else JStr (path_basename dir))"
proof -
  from assms(1,2) have "\<not> nullish t"
    and "extract_from now dir fb t (opt_get (get_prop t ''Metadata'') ''GeckoLambda'') = Inr c"
    by (auto simp: extractConfigFromTemplate_def readTemplate_def bind_def js_get_def
             split: if_splits)
  then have "\<exists>found key. find_function_key (or_js (get_prop t ''Resources'') (JObj []))
                  (map fst (own_props (or_js (get_prop t ''Resources'') (JObj []))))
                = Inr found
           \<and> truthy_key found = Some key
           \<and> functionName c =
               or_js (opt_get (opt_get (get_prop t ''Metadata'') ''GeckoLambda'') ''functionName'')
                 (or_js (JStr (toLowerCase (strip_Function key)))
                        (JStr (path_basename dir)))"
    unfolding extract_from_def Let_def bind_def object_keys_def
    by (auto split: sum.splits option.splits if_splits)
  then obtain key where
    "find_function_key (or_js (get_prop t ''Resources'') (JObj []))
        (map fst (own_props (or_js (get_prop t ''Resources'') (JObj [])))) = Inr (Some key)"
    and "key \<noteq> []"
    and "functionName c =
           or_js (opt_get (opt_get (get_prop t ''Metadata'') ''GeckoLambda'') ''functionName'')
             (or_js (JStr (toLowerCase (strip_Function key))) (JStr (path_basename dir)))"
    by (auto simp: truthy_key_Some)
  with assms(3) show ?thesis by (intro exI [of _ key]) (simp add: or_js_def)
qed

text \<open>
  Claim C10, as amended. When the private metadata of a manifest has no
  \<^verbatim>\<open>functionName\<close>, the extracted function name is the key of the first function
  resource, which is not empty, with a trailing \<^verbatim>\<open>Function\<close> removed, in lower case
  (the name of the function directory when that is empty). For a non-empty name and an
  event type that names no function inherited by the table of event skeletons,
  \<^verbatim>\<open>createTemplate\<close> succeeds, writes no \<^verbatim>\<open>functionName\<close> and keys the resource by the
  PascalCase form of the name, so the name extracted from the created manifest is the
  lower-cased PascalCase form. When a hyphen or underscore of the name is directly
  followed by a letter, a digit or an underscore, that form is shorter than the name,
  so the extracted name differs from it, and from the name of the function directory
  when the directory is named after the function. Otherwise the extracted name is the
  name in lower case.
\<close>

theorem function_name_derivation:
  "(extractConfigFromTemplate now st dir fb = Inr c \<and> st dir = Some (Doc t)
      \<and> \<not> truthy (opt_get (opt_get (get_prop t ''Metadata'') ''GeckoLambda'') ''functionName'')
    \<longrightarrow> (\<exists>key. find_function_key (or_js (get_prop t ''Resources'') (JObj []))
                  (map fst (own_props (or_js (get_prop t ''Resources'') (JObj []))))
                = Inr (Some key)
           \<and> key \<noteq> []
           \<and> functionName c =
               (if toLowerCase (strip_Function key) \<noteq> []
                then JStr (toLowerCase (strip_Function key))
                else JStr (path_basename dir))))
   \<and> (functionName config = JStr name \<and> name \<noteq> []
      \<and> js_to_string (eventType config) \<notin> set object_prototype_functions
    \<longrightarrow> (\<exists>t' c'. createTemplate now st dir config = Inr (st(dir \<mapsto> Doc t'))
           \<and> get_prop (opt_get (get_prop t' ''Metadata'') ''GeckoLambda'') ''functionName''
               = JUndefined
           \<and> get_prop (get_prop t' ''Resources'') (toPascalCase name @ ''Function'')
               \<noteq> JUndefined
           \<and> extractConfigFromTemplate now' (st(dir \<mapsto> Doc t')) dir fb = Inr c'
           \<and> functionName c' = JStr (toLowerCase (toPascalCase name))
           \<and> (has_joint name
                \<longrightarrow> length (toLowerCase (toPascalCase name)) < length name
                  \<and> functionName c' \<noteq> JStr name
                  \<and> (path_basename dir = name \<longrightarrow> functionName c' \<noteq> JStr (path_basename dir)))
           \<and> (\<not> has_joint name \<longrightarrow> functionName c' = JStr (toLowerCase name))))"
  using derived_name [of now st dir fb c t] created_name [of config name now st dir now' fb]
  by (intro conjI impI) (elim conjE, assumption)+

theorem function_name_derivation_witness:
  "map_sum id functionName (extractConfigFromTemplate ''T0'' complete_store ''/ws/hello'' JUndefined)
     = Inr (JStr (toLowerCase (strip_Function ''HelloFunction'')))
   \<and> has_joint ''my-func''
   \<and> map_sum id functionName
       (create_then_extract ''T0'' ''/ws/my-func'' (new_config ''my-func'' ''sqs''))
     = Inr (JStr ''myfunc'')
   \<and> \<not> has_joint ''Orders''
   \<and> map_sum id functionName
       (create_then_extract ''T0'' ''/ws/Orders'' (new_config ''Orders'' ''s3''))
     = Inr (JStr ''orders'')"
  using function_name_derivation [of "''T0''" complete_store "''/ws/hello''" JUndefined
          complete_config complete_template "new_config ''my-func'' ''sqs''" "''my-func''" "''T0''"]
        function_name_derivation [of "''T0''" Map.empty "''/ws/my-func''" JUndefined
          complete_config complete_template "new_config ''my-func'' ''sqs''" "''my-func''" "''T0''"]
        function_name_derivation [of "''T0''" Map.empty "''/ws/Orders''" JUndefined
          complete_config complete_template "new_config ''Orders'' ''s3''" "''Orders''" "''T0''"]
  by (simp add: eval_defs create_then_extract_def createTemplate_def new_config_def
        complete_config_def complete_store_def complete_template_def
        toPascalCase_def is_sep_def is_word_def upper_char_def assign_def
        generateEnvironmentSection_def getEventConfiguration_def event_configurations_def
        object_prototype_functions_def)

text \<open>
  Claim C10 as stated fails for a separator that nothing joins: the lower-case name
  \<^verbatim>\<open>orders_\<close>, which the name prompt accepts, contains an underscore and is
  recovered from the manifest created for it.
\<close>

theorem trailing_separator_recovered:
  "CHR ''_'' \<in> set ''orders_''
   \<and> map_sum id functionName
       (create_then_extract ''T0'' ''/ws/orders_'' (new_config ''orders_'' ''sqs''))
       = Inr (JStr ''orders_'')
   \<and> path_basename ''/ws/orders_'' = ''orders_''"
  by (simp add: eval_defs create_then_extract_def createTemplate_def new_config_def
        toPascalCase_def is_sep_def is_word_def upper_char_def assign_def
        generateEnvironmentSection_def getEventConfiguration_def event_configurations_def
        object_prototype_functions_def)


section \<open>Properties of the environment update\<close>

lemma find_function_index_resource:
  "find_function_resource vals = Inr fr \<Longrightarrow> truthy fr \<Longrightarrow>
     \<exists>i. find_function_index vals = Inr (Some i) \<and> i < length vals \<and> vals ! i = fr
         \<and> get_prop fr ''Type'' = JStr ''AWS::Serverless::Function''"
proof (induction vals)
  case Nil
  then show ?case by simp
next
  case (Cons r rs)
  show ?case
  proof (cases "get_prop r ''Type'' = JStr ''AWS::Serverless::Function''")
    case True
    with Cons.prems show ?thesis
      by (auto simp: bind_def js_get_def split: if_splits)
  next
    case False
    with Cons.prems have "find_function_resource rs = Inr fr" and nn: "\<not> nullish r"
      by (auto simp: bind_def js_get_def split: if_splits)
    with Cons.IH Cons.prems(2) obtain i where
      "find_function_index rs = Inr (Some i)" "i < length rs" "rs ! i = fr"
      "get_prop fr ''Type'' = JStr ''AWS::Serverless::Function''"
      by blast
    with False nn show ?thesis
      by (intro exI [of _ "Suc i"]) (simp add: bind_def js_get_def)
  qed
qed

lemma find_function_resource_update:
  "find_function_index vals = Inr (Some i) \<Longrightarrow>
   get_prop x ''Type'' = JStr ''AWS::Serverless::Function'' \<Longrightarrow> \<not> nullish x \<Longrightarrow>
     find_function_resource (vals[i := x]) = Inr x"
proof (induction vals arbitrary: i)
  case Nil
  then show ?case by simp
next
  case (Cons r rs)
  show ?case
  proof (cases "get_prop r ''Type'' = JStr ''AWS::Serverless::Function''")
    case True
    with Cons.prems have "i = 0"
      by (auto simp: bind_def js_get_def split: if_splits)
    with Cons.prems(2,3) show ?thesis by (simp add: bind_def js_get_def)
  next
    case False
    with Cons.prems(1) obtain j where nn: "\<not> nullish r"
      and j: "find_function_index rs = Inr (Some j)" and i: "i = Suc j"
      by (auto simp: bind_def js_get_def split: if_splits sum.splits)
    from Cons.IH [OF j Cons.prems(2,3)] False nn i show ?thesis
      by (simp add: bind_def js_get_def)
  qed
qed

lemma mapping_or_falsy_cases:
  assumes "mapping_or_falsy v"
  obtains ps where "v = JObj ps" | "\<not> truthy v" "\<forall>k. get_prop v k = JUndefined"
proof (cases v)
  case (JObj ps)
  then show ?thesis using that(1) by simp
next
  case (JStr s)
  with assms have "s = []" by (simp add: mapping_or_falsy_def)
  with JStr show ?thesis using that(2) by (simp add: get_prop_def)
qed (use assms that(2) in \<open>auto simp: mapping_or_falsy_def get_prop_def\<close>)

lemma ensure_mapping:
  assumes "mapping_or_falsy v"
  shows "\<exists>ps. ensure v = JObj ps \<and> (\<forall>k. get_prop (JObj ps) k = get_prop v k)"
proof (rule mapping_or_falsy_cases [OF assms])
  fix ps assume "v = JObj ps"
  then show ?thesis by (simp add: ensure_def)
next
  assume "\<not> truthy v" "\<forall>k. get_prop v k = JUndefined"
  then show ?thesis by (simp add: get_prop_def ensure_def)
qed

lemma unlabelled_as_manual:
  "updateEnvironmentVariables now st dir env None
     = updateEnvironmentVariables now st dir env (Some ''manual'')"
  "updateEnvironmentVariables now st dir env (Some [])
     = updateEnvironmentVariables now st dir env (Some ''manual'')"
  by (simp_all add: updateEnvironmentVariables_def or_js_def)

text \<open>
  Claim C5, as amended. Take a manifest whose \<^verbatim>\<open>Resources\<close> is a mapping with a
  function resource, and whose \<^verbatim>\<open>Properties\<close>, \<^verbatim>\<open>Environment\<close>, \<^verbatim>\<open>Metadata\<close> and
  \<^verbatim>\<open>GeckoLambda\<close> sections are mappings or absent. Then \<^verbatim>\<open>updateEnvironmentVariables\<close>
  succeeds, and in the manifest it writes the environment variables of the function
  resource are exactly the variables given, whatever they were before; the private
  metadata records under \<^verbatim>\<open>environmentInfo\<close> the time of the update, the source
  \<^verbatim>\<open>aws\<close> whatever the origin, the origin label (\<^verbatim>\<open>manual\<close> when none or an empty one
  is given) and the number of variables, and \<^verbatim>\<open>lastModified\<close> is the time of the
  update. An update without a label, or with an empty one, does what an update from
  an origin named \<^verbatim>\<open>manual\<close> does, so the record does not tell them apart.
\<close>

theorem updateEnvironmentVariables_replaces:
  assumes st: "st dir = Some (Doc t)"
    and rs: "get_prop t ''Resources'' = JObj rs"
    and found: "truthy (function_resource t)"
    and shP: "mapping_or_falsy (get_prop (function_resource t) ''Properties'')"
    and shE: "mapping_or_falsy
                (get_prop (get_prop (function_resource t) ''Properties'') ''Environment'')"
    and shM: "mapping_or_falsy (get_prop t ''Metadata'')"
    and shG: "mapping_or_falsy (get_prop (get_prop t ''Metadata'') ''GeckoLambda'')"
  shows "(\<exists>t'. updateEnvironmentVariables now st dir env label = Inr (st(dir \<mapsto> Doc t'))
           \<and> environment_variables t' = JObj (map (\<lambda>kv. (fst kv, JStr (snd kv))) env)
           \<and> get_prop (gecko_metadata t') ''environmentInfo''
               = JObj [(''lastUpdated'', JStr now),
                       (''source'', JStr ''aws''),
                       (''awsFunctionName'',
                          JStr (case label of None \<Rightarrow> ''manual''
                                | Some l \<Rightarrow> if l = [] then ''manual'' else l)),
                       (''variableCount'', JNum (int (length env)))]
           \<and> get_prop (gecko_metadata t') ''lastModified'' = JStr now)
         \<and> updateEnvironmentVariables now st dir env None
             = updateEnvironmentVariables now st dir env (Some ''manual'')
         \<and> updateEnvironmentVariables now st dir env (Some [])
             = updateEnvironmentVariables now st dir env (Some ''manual'')"
proof -
  define fr where "fr = function_resource t"
  define V where "V = JObj (map (\<lambda>kv. (fst kv, JStr (snd kv))) env)"
  define info where "info = JObj [(''lastUpdated'', JStr now),
                       (''source'', JStr ''aws''),
                       (''awsFunctionName'',
                          JStr (case label of None \<Rightarrow> ''manual''
                                | Some l \<Rightarrow> if l = [] then ''manual'' else l)),
                       (''variableCount'', JNum (int (length env)))]"
  from rs have "get_prop t ''Resources'' \<noteq> JUndefined" by simp
  then obtain ts where t: "t = JObj ts"
    using get_prop_named [of t "''Resources''"] by auto
  from found rs have fnd: "find_function_resource (map snd rs) = Inr fr"
    by (auto simp: function_resource_def fr_def split: sum.splits)
  from found have trfr: "truthy fr" by (simp add: fr_def)
  from find_function_index_resource [OF fnd trfr] obtain i where
    idx: "find_function_index (map snd rs) = Inr (Some i)" and i: "i < length rs"
    and at: "map snd rs ! i = fr"
    and ty: "get_prop fr ''Type'' = JStr ''AWS::Serverless::Function''"
    by auto
  from ty have "get_prop fr ''Type'' \<noteq> JUndefined" by simp
  then obtain fs where fs: "fr = JObj fs" and fty: "map_of fs ''Type'' = Some (get_prop fr ''Type'')"
    using get_prop_named [of fr "''Type''"] by auto
  from ensure_mapping [OF shP] obtain pps where
    p1: "ensure (get_prop fr ''Properties'') = JObj pps"
    and pk: "\<And>k. get_prop (JObj pps) k = get_prop (get_prop fr ''Properties'') k"
    unfolding fr_def by blast
  from shE have "mapping_or_falsy (get_prop (JObj pps) ''Environment'')"
    by (simp add: pk fr_def)
  from ensure_mapping [OF this] obtain ees where
    e1: "ensure (get_prop (JObj pps) ''Environment'') = JObj ees"
    by blast
  from ensure_mapping [OF shM] obtain mms where
    m1: "ensure (get_prop t ''Metadata'') = JObj mms"
    and mk: "\<And>k. get_prop (JObj mms) k = get_prop (get_prop t ''Metadata'') k"
    by blast
  from shG have "mapping_or_falsy (get_prop (JObj mms) ''GeckoLambda'')"
    by (simp add: mk)
  from ensure_mapping [OF this] obtain ggs where
    g1: "ensure (get_prop (JObj mms) ''GeckoLambda'') = JObj ggs"
    by blast
  define fr2 where "fr2 = JObj (AList.update ''Properties''
      (JObj (AList.update ''Environment'' (JObj (AList.update ''Variables'' V ees)) pps)) fs)"
  define g3 where "g3 = JObj (AList.update ''lastModified'' (JStr now)
                           (AList.update ''environmentInfo'' info ggs))"
  define t2 where "t2 = JObj (AList.update ''Metadata'' (JObj (AList.update ''GeckoLambda'' g3 mms))
      (AList.update ''Resources'' (JObj (rs[i := (fst (rs ! i), fr2)])) ts))"
  have set1: "js_set t ''Resources'' x = Inr (JObj (AList.update ''Resources'' x ts))" for x
    by (simp add: t)
  have meta1: "get_prop (JObj (AList.update ''Resources'' x ts)) ''Metadata''
                 = get_prop t ''Metadata''" for x
    by (simp add: t get_prop_JObj update_conv')
  have res_truthy: "or_js (JObj rs) (JObj []) = JObj rs" by (simp add: or_js_def)
  have fs': "js_set fr ''Properties'' x = Inr (JObj (AList.update ''Properties'' x fs))" for x
    by (simp add: fs)
  have tn: "\<not> nullish t" by (simp add: t)
  have lab: "or_js (case label of None \<Rightarrow> JUndefined | Some n \<Rightarrow> JStr n) (JStr ''manual'')
      = JStr (case label of None \<Rightarrow> ''manual'' | Some l \<Rightarrow> if l = [] then ''manual'' else l)"
    by (simp add: or_js_def split: option.splits)
  have upd: "updateEnvironmentVariables now st dir env label = Inr (st(dir \<mapsto> Doc t2))"
    unfolding updateEnvironmentVariables_def Let_def
    by (simp add: st readTemplate_def bind_def js_get_def rs res_truthy object_values_def idx
          at p1 e1 m1 g1 fs [symmetric] fs' put_own_def tn set1 meta1 lab writeTemplate_def
          t2_def g3_def fr2_def V_def info_def)
  have res2: "get_prop t2 ''Resources'' = JObj (rs[i := (fst (rs ! i), fr2)])"
    by (simp add: t2_def get_prop_JObj update_conv')
  have "find_function_resource ((map snd rs)[i := fr2]) = Inr fr2"
    by (rule find_function_resource_update [OF idx])
       (simp_all add: fr2_def get_prop_JObj update_conv' fty ty)
  then have fr2': "function_resource t2 = fr2"
    by (simp add: function_resource_def res2 map_update)
  have vars: "environment_variables t2 = V"
    by (simp add: environment_variables_def fr2' fr2_def get_prop_JObj update_conv')
  have gm: "gecko_metadata t2 = g3"
    by (simp add: gecko_metadata_def t2_def get_prop_JObj opt_get_JObj update_conv')
  have "get_prop g3 ''environmentInfo'' = info" "get_prop g3 ''lastModified'' = JStr now"
    by (simp_all add: g3_def get_prop_JObj update_conv')
  with upd vars gm have "\<exists>t'. updateEnvironmentVariables now st dir env label
               = Inr (st(dir \<mapsto> Doc t'))
           \<and> environment_variables t' = JObj (map (\<lambda>kv. (fst kv, JStr (snd kv))) env)
           \<and> get_prop (gecko_metadata t') ''environmentInfo''
               = JObj [(''lastUpdated'', JStr now),
                       (''source'', JStr ''aws''),
                       (''awsFunctionName'',
                          JStr (case label of None \<Rightarrow> ''manual''
                                | Some l \<Rightarrow> if l = [] then ''manual'' else l)),
                       (''variableCount'', JNum (int (length env)))]
           \<and> get_prop (gecko_metadata t') ''lastModified'' = JStr now"
    unfolding V_def info_def by (intro exI [of _ t2]) simp
  then show ?thesis
    by (intro conjI unlabelled_as_manual)
qed

theorem updateEnvironmentVariables_replaces_witness:
  "environment_variables complete_template = JObj [(''STAGE'', JStr ''prod'')]
   \<and> (\<exists>t'. updateEnvironmentVariables ''T5'' complete_store ''/ws/hello''
                  [(''A'', ''1''), (''B'', ''2'')] None
               = Inr (complete_store(''/ws/hello'' \<mapsto> Doc t'))
           \<and> environment_variables t' = JObj [(''A'', JStr ''1''), (''B'', JStr ''2'')]
           \<and> get_prop (gecko_metadata t') ''environmentInfo''
               = JObj [(''lastUpdated'', JStr ''T5''),
                       (''source'', JStr ''aws''),
                       (''awsFunctionName'', JStr ''manual''),
                       (''variableCount'', JNum 2)]
           \<and> get_prop (gecko_metadata t') ''lastModified'' = JStr ''T5'')"
proof -
  have fr: "function_resource complete_template =
      JObj [(''Type'', JStr ''AWS::Serverless::Function''),
            (''Properties'',
               JObj [(''Runtime'', JStr ''provided.al2023''),
                     (''Architectures'', JArr [JStr ''arm64'']),
                     (''Environment'',
                        JObj [(''Variables'', JObj [(''STAGE'', JStr ''prod'')])]),
                     (''Events'',
                        JObj [(''SQSEvent'', JObj [(''Type'', JStr ''SQS'')])])])]"
    by (simp add: function_resource_def complete_template_def get_prop_JObj bind_def js_get_def)
  have old: "environment_variables complete_template = JObj [(''STAGE'', JStr ''prod'')]"
    by (simp add: environment_variables_def fr get_prop_JObj)
  have st: "complete_store ''/ws/hello'' = Some (Doc complete_template)"
    by (simp add: complete_store_def)
  have rs: "get_prop complete_template ''Resources'' = JObj [(''HelloFunction'',
              JObj [(''Type'', JStr ''AWS::Serverless::Function''),
                    (''Properties'',
                       JObj [(''Runtime'', JStr ''provided.al2023''),
                             (''Architectures'', JArr [JStr ''arm64'']),
                             (''Environment'',
                                JObj [(''Variables'', JObj [(''STAGE'', JStr ''prod'')])]),
                             (''Events'',
                                JObj [(''SQSEvent'', JObj [(''Type'', JStr ''SQS'')])])])])]"
    by (simp add: complete_template_def get_prop_JObj)
  have shapes: "truthy (function_resource complete_template)"
    "mapping_or_falsy (get_prop (function_resource complete_template) ''Properties'')"
    "mapping_or_falsy
       (get_prop (get_prop (function_resource complete_template) ''Properties'') ''Environment'')"
    by (simp_all add: fr get_prop_JObj mapping_or_falsy_def)
  have shapes': "mapping_or_falsy (get_prop complete_template ''Metadata'')"
    "mapping_or_falsy (get_prop (get_prop complete_template ''Metadata'') ''GeckoLambda'')"
    by (simp_all add: get_prop_JObj mapping_or_falsy_def complete_template_def)
  from updateEnvironmentVariables_replaces [where st = complete_store and dir = "''/ws/hello''"
          and now = "''T5''" and env = "[(''A'', ''1''), (''B'', ''2'')]" and label = None,
          OF st rs shapes shapes', THEN conjunct1]
  have "\<exists>t'. updateEnvironmentVariables ''T5'' complete_store ''/ws/hello''
                  [(''A'', ''1''), (''B'', ''2'')] None
               = Inr (complete_store(''/ws/hello'' \<mapsto> Doc t'))
           \<and> environment_variables t' = JObj [(''A'', JStr ''1''), (''B'', JStr ''2'')]
           \<and> get_prop (gecko_metadata t') ''environmentInfo''
               = JObj [(''lastUpdated'', JStr ''T5''),
                       (''source'', JStr ''aws''),
                       (''awsFunctionName'', JStr ''manual''),
                       (''variableCount'', JNum 2)]
           \<and> get_prop (gecko_metadata t') ''lastModified'' = JStr ''T5''"
    by simp
  with old show ?thesis by (intro conjI)
qed

text \<open>
  Claim C5 as stated fails for an update without an origin label: it is recorded with
  the source \<^verbatim>\<open>aws\<close>, which the extracted configuration then reports, and the
  manifest written is the one that a sync from an origin named \<^verbatim>\<open>manual\<close> writes.
\<close>

theorem unlabelled_update_marked_as_synced:
  "map_sum id (\<lambda>st. recorded_provenance st ''/ws/hello'')
     (updateEnvironmentVariables ''T5'' complete_store ''/ws/hello'' [(''A'', ''1'')] None)
     = Inr (JObj [(''lastUpdated'', JStr ''T5''), (''source'', JStr ''aws''),
                  (''awsFunctionName'', JStr ''manual''), (''variableCount'', JNum 1)])
   \<and> updateEnvironmentVariables ''T5'' complete_store ''/ws/hello'' [(''A'', ''1'')]
         (Some ''manual'')
     = updateEnvironmentVariables ''T5'' complete_store ''/ws/hello'' [(''A'', ''1'')] None
   \<and> map_sum id (\<lambda>c. source (environment c))
         (bind (updateEnvironmentVariables ''T5'' complete_store ''/ws/hello'' [(''A'', ''1'')] None)
            (\<lambda>st. extractConfigFromTemplate ''T6'' st ''/ws/hello'' JUndefined))
     = Inr (JStr ''aws'')"
  by (simp add: eval_defs updateEnvironmentVariables_def recorded_provenance_def
        gecko_metadata_def complete_store_def complete_template_def object_values_def
        ensure_def put_own_def)

section \<open>Properties of the migration\<close>

lemma migration_keeps_backup:
  "legacy_config w = Some content \<Longrightarrow>
     legacy_backup (performUnifiedSystemMigration force w) = Some content
     \<and> legacy_config (performUnifiedSystemMigration force w) = None"
  by (simp add: performUnifiedSystemMigration_def cleanupGlobalConfig_def
        migrateFromGlobalConfig_def)

lemma migration_without_legacy:
  "legacy_config w = None \<Longrightarrow> performUnifiedSystemMigration False w = w"
  by (simp add: performUnifiedSystemMigration_def)

lemma migration_manifests:
  "manifest_store (performUnifiedSystemMigration force w) = manifest_store w"
  by (simp add: performUnifiedSystemMigration_def cleanupGlobalConfig_def
        migrateFromGlobalConfig_def Let_def split: option.splits)

text \<open>
  Claim C3. Migration is to give each entry of the legacy registry a manifest with
  private metadata, then rename the registry to its backup name. The renaming is done
  and a second run changes nothing, but \<^verbatim>\<open>migrateFromGlobalConfig\<close> has an empty body:
  on a workspace whose registry has one entry and no function directory, the migration
  leaves the workspace without any manifest, so the scan of all functions finds none
  while the registry is already moved away.
\<close>

theorem migration_creates_no_manifest:
  "manifest_store (performUnifiedSystemMigration False legacy_workspace) ''/ws/orders'' = None
   \<and> getAllLambdaFunctions ''T1'' (Some (Inr [(''orders'', True)]))
        (manifest_store (performUnifiedSystemMigration False legacy_workspace)) ''/ws'' = []
   \<and> legacy_config (performUnifiedSystemMigration False legacy_workspace) = None
   \<and> legacy_backup (performUnifiedSystemMigration False legacy_workspace) = Some legacy_text
   \<and> performUnifiedSystemMigration False (performUnifiedSystemMigration False legacy_workspace)
       = performUnifiedSystemMigration False legacy_workspace"
  by (simp add: performUnifiedSystemMigration_def cleanupGlobalConfig_def
        migrateFromGlobalConfig_def legacy_workspace_def getAllLambdaFunctions_def path_join_def)

end
